theory Spec2Isabelle
  imports Main "HOL-Library.Sublist"
begin

section \<open>Values, exceptions and the outside world\<close>

text \<open>
  The two modules are glue over three libraries: the BigQuery client, the Cloud Storage
  client and pandas/json.  Python values that travel through the code (file names, decoded
  JSON, rows) are modelled by \<open>json\<close>; a float is kept as its literal, since no
  branch of the code looks at one.
\<close>

datatype json =
    JNone
  | JBool bool
  | JInt int
  | JFloat string
  | JStr string
  | JList "json list"
  | JDict "(string \<times> json) list"

text \<open>
  A printed line or an exception message is an f-string: literal pieces and interpolated
  values.  \<open>Fmt v\<close> stands for Python's \<open>str(v)\<close> and \<open>FmtType v\<close> for
  \<open>str(type(v))\<close> (\<open>FmtTypeName v\<close> for the bare type name); the pieces are kept apart so that no rendering has to be invented.
\<close>

datatype part = Lit string | Fmt json | FmtType json | FmtTypeName json

datatype exn_class =
  JSONDecodeError | ValueError | TypeError | AttributeError | RuntimeError | OtherException

text \<open>
  An exception is its class and \<open>str(e)\<close>.  Every class here derives from
  \<open>Exception\<close>; \<open>JSONDecodeError\<close> derives from \<open>ValueError\<close>.
  \<open>OtherException\<close> is whatever else the client libraries raise.
\<close>

datatype exn = Exn exn_class "part list"

fun exn_class_of :: "exn \<Rightarrow> exn_class" where
  "exn_class_of (Exn c m) = c"

fun str_exn :: "exn \<Rightarrow> part list" where
  "str_exn (Exn c m) = m"

text \<open>A pandas DataFrame: its column labels and its rows of cells.\<close>

record dataframe =
  df_columns :: "string list"
  df_rows :: "json list list"

definition df_empty :: "dataframe \<Rightarrow> bool" where
  \<comment> \<open>\<open>DataFrame.empty\<close>: some axis has length 0\<close>
  "df_empty df = (df_columns df = [] \<or> df_rows df = [])"

definition to_dict_records :: "dataframe \<Rightarrow> json list" where
  \<comment> \<open>\<open>df.to_dict(orient="records")\<close>\<close>
  "to_dict_records df = map (\<lambda>r. JDict (zip (df_columns df) r)) (df_rows df)"

text \<open>What a finished load job reports: \<open>job.result()\<close> raised, or it returned and
  \<open>job.error_result\<close> is set, or the job succeeded.\<close>

datatype load_outcome = LoadRaises exn | LoadErrorResult "(string \<times> json) list" | LoadOk

text \<open>
  The behaviour of the services and decoders, which the repository does not contain, is a
  parameter: for each external call, what it answers to its arguments.
\<close>

record gcp =
  bigquery_Client :: "exn option"
  storage_Client :: "exn option"
  query_nombre_archivo :: "string \<Rightarrow> exn + string list"
  list_blobs :: "string \<Rightarrow> string \<Rightarrow> exn + string list"
  blob_download_as_text :: "string \<Rightarrow> json \<Rightarrow> exn + string"
  blob_download_as_bytes :: "string \<Rightarrow> json \<Rightarrow> exn + string"
  pd_read_json_lines :: "string \<Rightarrow> exn + dataframe"
  json_loads :: "string \<Rightarrow> exn + json"
  pd_read_parquet :: "string \<Rightarrow> exn + dataframe"
  pd_read_pickle :: "string \<Rightarrow> exn + dataframe"
  load_job :: "dataframe \<Rightarrow> string \<Rightarrow> load_outcome"
  insert_errors :: "string \<Rightarrow> json list \<Rightarrow> exn + json list"
  query_insert_select :: "string \<Rightarrow> string \<Rightarrow> exn option"
  delete_table_fails :: "string \<Rightarrow> exn option"
  datetime_now_isoformat :: "nat \<Rightarrow> string"

text \<open>The external operations the code performs, recorded in the order it performs them.\<close>

datatype call =
    NewBigQueryClient
  | NewStorageClient
  | Query string
  | ListBlobs string string
  | DownloadAsText string json
  | DownloadAsBytes string json
  | ReadJsonLines string
  | JsonLoads string
  | ReadParquet string
  | ReadPickle string
  | LoadTableFromDataframe string dataframe
  | InsertRowsJson string "json list"
  | InsertSelect string string
  | DeleteTable string
  | ClientClose

text \<open>
  The state a run acts on: the warehouse's tables (absent, or their rows), the external
  calls made so far, and the lines printed so far.
\<close>

record world =
  tables :: "string \<Rightarrow> json list option"
  calls :: "call list"
  stdout :: "part list list"

type_synonym 'a io = "world \<Rightarrow> (exn + 'a) \<times> world"

definition ret :: "'a \<Rightarrow> 'a io" where
  "ret x w = (Inr x, w)"

definition raise :: "exn \<Rightarrow> 'a io" where
  "raise e w = (Inl e, w)"

definition andthen :: "'a io \<Rightarrow> ('a \<Rightarrow> 'b io) \<Rightarrow> 'b io" where
  \<comment> \<open>statement sequencing: an exception skips the rest\<close>
  "andthen m f w = (case m w of (Inl e, w') \<Rightarrow> (Inl e, w') | (Inr x, w') \<Rightarrow> f x w')"

definition py_print :: "part list \<Rightarrow> unit io" where
  "py_print msg w = (Inr (), w\<lparr>stdout := stdout w @ [msg]\<rparr>)"

definition extern :: "call \<Rightarrow> exn + 'a \<Rightarrow> 'a io" where
  \<comment> \<open>an external call that does not change the tables: it is recorded and answers\<close>
  "extern c r w = (r, w\<lparr>calls := calls w @ [c]\<rparr>)"

definition new_client :: "call \<Rightarrow> exn option \<Rightarrow> unit io" where
  "new_client c fails = extern c (case fails of Some e \<Rightarrow> Inl e | None \<Rightarrow> Inr ())"

definition endswith :: "string \<Rightarrow> string \<Rightarrow> bool" where
  \<comment> \<open>\<open>s.endswith(suf)\<close>\<close>
  "endswith s suf = (length suf \<le> length s \<and> drop (length s - length suf) s = suf)"

section \<open>v2\_registrar\_archivo.py\<close>

definition archivos_procesados_table_id :: "string \<Rightarrow> string \<Rightarrow> string" where
  "archivos_procesados_table_id project_id dataset =
     project_id @ ''.'' @ dataset @ ''.archivos_procesados''"

definition query_archivos_procesados :: "string \<Rightarrow> string" where
  "query_archivos_procesados table_id = ''SELECT nombre_archivo FROM `'' @ table_id @ ''`''"

text \<open>The body of the \<open>try\<close> of \<open>obtener_archivos_nuevos\<close> (lines 18 to 38).\<close>

definition obtener_archivos_nuevos_try ::
    "gcp \<Rightarrow> string \<Rightarrow> string \<Rightarrow> string \<Rightarrow> string \<Rightarrow> string list io" where
  "obtener_archivos_nuevos_try env bucket_name blob_prefix project_id dataset =
     andthen (new_client NewBigQueryClient (bigquery_Client env)) (\<lambda>_.
     andthen (new_client NewStorageClient (storage_Client env)) (\<lambda>_.
     let table_id = archivos_procesados_table_id project_id dataset;
         query = query_archivos_procesados table_id in
     andthen (extern (Query query) (query_nombre_archivo env query)) (\<lambda>rows.
     let archivos_procesados = set rows in
     andthen (extern (ListBlobs bucket_name blob_prefix) (list_blobs env bucket_name blob_prefix)) (\<lambda>blobs.
     let archivos = blobs;
         archivos_nuevos = [archivo \<leftarrow> archivos. archivo \<notin> archivos_procesados] in
     andthen (py_print [Lit ''Archivos nuevos detectados: '', Fmt (JList (map JStr archivos_nuevos))]) (\<lambda>_.
     ret archivos_nuevos)))))"

definition obtener_archivos_nuevos ::
    "gcp \<Rightarrow> string \<Rightarrow> string \<Rightarrow> string \<Rightarrow> string \<Rightarrow> world \<Rightarrow> string list \<times> world" where
  "obtener_archivos_nuevos env bucket_name blob_prefix project_id dataset w =
     (case obtener_archivos_nuevos_try env bucket_name blob_prefix project_id dataset w of
        (Inr archivos_nuevos, w') \<Rightarrow> (archivos_nuevos, w')
      | (Inl e, w') \<Rightarrow>
          ([], snd (py_print (Lit ''Error en obtener_archivos_nuevos: '' # str_exn e) w')))"

definition obtener_archivos_nuevos_version_premium ::
    "gcp \<Rightarrow> string \<Rightarrow> string \<Rightarrow> string \<Rightarrow> string \<Rightarrow> string list io" where
  "obtener_archivos_nuevos_version_premium env bucket_name blob_prefix project_id dataset =
     andthen (new_client NewBigQueryClient (bigquery_Client env)) (\<lambda>_.
     andthen (new_client NewStorageClient (storage_Client env)) (\<lambda>_.
     let table_id = archivos_procesados_table_id project_id dataset in
     andthen (py_print [Lit ''Consultando archivos procesados en BigQuery...'']) (\<lambda>_.
     let query = query_archivos_procesados table_id in
     andthen (extern (Query query) (query_nombre_archivo env query)) (\<lambda>rows.
     let archivos_procesados = set rows in
     andthen (py_print [Lit ''Listando archivos en el bucket '', Fmt (JStr bucket_name),
                        Lit '' con prefijo '', Lit [CHR 0x27], Fmt (JStr blob_prefix), Lit [CHR 0x27],
                        Lit ''...'']) (\<lambda>_.
     andthen (extern (ListBlobs bucket_name blob_prefix) (list_blobs env bucket_name blob_prefix)) (\<lambda>blobs.
     let archivos = [name \<leftarrow> blobs. \<not> endswith name ''/''];
         archivos_nuevos = [archivo \<leftarrow> archivos. archivo \<notin> archivos_procesados] in
     andthen (py_print [Lit ''Archivos nuevos detectados: '', Fmt (JList (map JStr archivos_nuevos))]) (\<lambda>_.
     ret archivos_nuevos)))))))"


text \<open>
  \<open>client.insert_rows_json(table_id, rows)\<close>: a streaming insert.  It raises when the
  service does (and when the table is absent); otherwise it returns the per-row errors,
  and the rows are in the table exactly when that list is empty (the request is sent
  without \<open>skip_invalid_rows\<close>, so one bad row rejects the whole request).
\<close>

definition insert_rows_json :: "gcp \<Rightarrow> string \<Rightarrow> json list \<Rightarrow> json list io" where
  "insert_rows_json env table_id rows w =
     (let w1 = w\<lparr>calls := calls w @ [InsertRowsJson table_id rows]\<rparr> in
      case tables w table_id of
        None \<Rightarrow> (Inl (Exn OtherException [Lit ''Not found: Table '', Lit table_id]), w1)
      | Some old \<Rightarrow>
          (case insert_errors env table_id rows of
             Inl e \<Rightarrow> (Inl e, w1)
           | Inr errors \<Rightarrow>
               if errors = [] then (Inr [], w1\<lparr>tables := (tables w1)(table_id \<mapsto> old @ rows)\<rparr>)
               else (Inr errors, w1)))"

definition registrar_archivos_en_bq_try :: "gcp \<Rightarrow> string \<Rightarrow> string \<Rightarrow> string list \<Rightarrow> unit io" where
  "registrar_archivos_en_bq_try env project_id dataset archivos_nuevos =
     (if archivos_nuevos \<noteq> [] then
        andthen (new_client NewBigQueryClient (bigquery_Client env)) (\<lambda>_.
        let table_id = archivos_procesados_table_id project_id dataset;
            rows_to_insert =
              map (\<lambda>(i, archivo). JDict [(''nombre_archivo'', JStr archivo),
                                          (''fecha_carga'', JStr (datetime_now_isoformat env i))])
                  (enumerate 0 archivos_nuevos) in
        andthen (py_print [Lit ''Registrando archivos en BigQuery: '',
                           Fmt (JList (map JStr archivos_nuevos))]) (\<lambda>_.
        andthen (insert_rows_json env table_id rows_to_insert) (\<lambda>errors.
        if errors \<noteq> [] then
          py_print [Lit ''Error al insertar los archivos procesados: '', Fmt (JList errors)]
        else
          py_print [Lit ''Archivos nuevos registrados exitosamente: '',
                    Fmt (JList (map JStr archivos_nuevos))])))
      else ret ())"

text \<open>\<open>registrar_archivos_en_bq\<close> returns \<open>None\<close> on every path: its result is the
  world it leaves.\<close>

definition registrar_archivos_en_bq :: "gcp \<Rightarrow> string \<Rightarrow> string \<Rightarrow> string list \<Rightarrow> unit io" where
  "registrar_archivos_en_bq env project_id dataset archivos_nuevos w =
     (case registrar_archivos_en_bq_try env project_id dataset archivos_nuevos w of
        (Inr u, w') \<Rightarrow> (Inr (), w')
      | (Inl e, w') \<Rightarrow> py_print (Lit ''Error en registrar_archivos_en_bq: '' # str_exn e) w')"

section \<open>tabla\_temporal.py\<close>

definition table_id_of :: "string \<Rightarrow> string \<Rightarrow> string \<Rightarrow> string" where
  \<comment> \<open>\<open>f"{project_id}.{dataset}.{table}"\<close>\<close>
  "table_id_of project_id dataset t = project_id @ ''.'' @ dataset @ ''.'' @ t"

text \<open>
  \<open>client.load_table_from_dataframe(df, table_id)\<close> followed by \<open>job.result()\<close>: a load
  job, atomic in the warehouse.  It appends the frame's records when it succeeds (creating
  the table if needed) and nothing otherwise; the value is \<open>job.error_result\<close>.
\<close>

definition load_table_from_dataframe ::
    "gcp \<Rightarrow> dataframe \<Rightarrow> string \<Rightarrow> (string \<times> json) list option io" where
  "load_table_from_dataframe env df table_id w =
     (let w1 = w\<lparr>calls := calls w @ [LoadTableFromDataframe table_id df]\<rparr> in
      case load_job env df table_id of
        LoadRaises e \<Rightarrow> (Inl e, w1)
      | LoadErrorResult err \<Rightarrow> (Inr (Some err), w1)
      | LoadOk \<Rightarrow>
          (Inr None,
           w1\<lparr>tables := (tables w1)(table_id \<mapsto>
                  (case tables w1 table_id of None \<Rightarrow> [] | Some old \<Rightarrow> old)
                  @ to_dict_records df)\<rparr>))"

text \<open>The body of the \<open>try\<close> inside the loop of \<open>cargar_archivos_en_tabla_temporal\<close>
  (lines 58 to 77), for one element of \<open>archivos\<close>.\<close>

definition cargar_archivo_try ::
    "gcp \<Rightarrow> string \<Rightarrow> string \<Rightarrow> string \<Rightarrow> string \<Rightarrow> json \<Rightarrow> unit io" where
  "cargar_archivo_try env bucket_name project_id dataset temp_table archivo =
     andthen (extern (DownloadAsText bucket_name archivo)
                (blob_download_as_text env bucket_name archivo)) (\<lambda>contenido.
     andthen (extern (ReadJsonLines contenido) (pd_read_json_lines env contenido)) (\<lambda>df.
     if df_empty df then
       raise (Exn ValueError [Lit ''El archivo '', Fmt archivo, Lit '' no contiene datos.''])
     else
       let table_id = table_id_of project_id dataset temp_table in
       andthen (load_table_from_dataframe env df table_id) (\<lambda>error_result.
       case error_result of
         None \<Rightarrow> ret ()
       | Some err \<Rightarrow>
           if err \<noteq> [] then
             raise (Exn RuntimeError [Lit ''Error al insertar datos del archivo '', Fmt archivo,
                                      Lit '': '', Fmt (JDict err)])
           else ret ())))"

text \<open>The two \<open>except\<close> clauses (lines 79 to 82).  The accented letter of the first
  message is written as its two UTF-8 bytes.\<close>

definition cargar_archivo_except :: "json \<Rightarrow> exn \<Rightarrow> part list" where
  "cargar_archivo_except archivo e =
     (if exn_class_of e = JSONDecodeError then
        [Lit (''Error de decodificaci'' @ [CHR 0xC3, CHR 0xB3] @ ''n JSON en el archivo ''),
         Fmt archivo, Lit '': ''] @ str_exn e
      else [Lit ''Error al procesar el archivo '', Fmt archivo, Lit '': ''] @ str_exn e)"

fun cargar_archivos_loop ::
    "gcp \<Rightarrow> string \<Rightarrow> string \<Rightarrow> string \<Rightarrow> string \<Rightarrow> json list \<Rightarrow> world \<Rightarrow> world" where
  "cargar_archivos_loop env bucket_name project_id dataset temp_table [] w = w"
| "cargar_archivos_loop env bucket_name project_id dataset temp_table (archivo # rest) w =
     (case cargar_archivo_try env bucket_name project_id dataset temp_table archivo w of
        (Inr u, w') \<Rightarrow> cargar_archivos_loop env bucket_name project_id dataset temp_table rest w'
      | (Inl e, w') \<Rightarrow>
          cargar_archivos_loop env bucket_name project_id dataset temp_table rest
            (snd (py_print (cargar_archivo_except archivo e) w')))"

definition cargar_archivos_en_tabla_temporal ::
    "gcp \<Rightarrow> string \<Rightarrow> json \<Rightarrow> string \<Rightarrow> string \<Rightarrow> string \<Rightarrow> unit io" where
  "cargar_archivos_en_tabla_temporal env bucket_name archivos project_id dataset temp_table =
     andthen (new_client NewBigQueryClient (bigquery_Client env)) (\<lambda>_.
     andthen (new_client NewStorageClient (storage_Client env)) (\<lambda>_.
     case archivos of
       JList xs \<Rightarrow>
         andthen (\<lambda>w. (Inr (),
                    cargar_archivos_loop env bucket_name project_id dataset temp_table xs w)) (\<lambda>_.
         extern ClientClose (Inr ()))
     | _ \<Rightarrow> raise (Exn TypeError [Lit ''archivos debe ser una lista de nombres de archivos.''])))"

text \<open>
  \<open>INSERT INTO final SELECT * FROM temp\<close>, waited for with \<open>.result()\<close>: one DML
  statement, atomic in the warehouse.  It raises when the service does or when a table is
  absent, and then changes nothing; otherwise the rows of \<open>temp\<close> are appended to
  \<open>final\<close>.
\<close>

definition client_query_insert_select :: "gcp \<Rightarrow> string \<Rightarrow> string \<Rightarrow> unit io" where
  "client_query_insert_select env final_id temp_id w =
     (let w1 = w\<lparr>calls := calls w @ [InsertSelect final_id temp_id]\<rparr> in
      case query_insert_select env final_id temp_id of
        Some e \<Rightarrow> (Inl e, w1)
      | None \<Rightarrow>
          (case tables w final_id of
             None \<Rightarrow> (Inl (Exn OtherException [Lit ''Not found: Table '', Lit final_id]), w1)
           | Some final_rows \<Rightarrow>
               (case tables w temp_id of
                  None \<Rightarrow> (Inl (Exn OtherException [Lit ''Not found: Table '', Lit temp_id]), w1)
                | Some temp_rows \<Rightarrow>
                    (Inr (), w1\<lparr>tables := (tables w1)(final_id \<mapsto> final_rows @ temp_rows)\<rparr>))))"

text \<open>\<open>client.delete_table(table_id, not_found_ok=True)\<close>: it raises when the service
  does, and then changes nothing; otherwise the table is gone (it may have been absent).\<close>

definition client_delete_table :: "gcp \<Rightarrow> string \<Rightarrow> unit io" where
  "client_delete_table env table_id w =
     (let w1 = w\<lparr>calls := calls w @ [DeleteTable table_id]\<rparr> in
      case delete_table_fails env table_id of
        Some e \<Rightarrow> (Inl e, w1)
      | None \<Rightarrow> (Inr (), w1\<lparr>tables := (tables w1)(table_id := None)\<rparr>))"

definition mover_datos_y_borrar_temp ::
    "gcp \<Rightarrow> string \<Rightarrow> string \<Rightarrow> string \<Rightarrow> string \<Rightarrow> part list io" where
  "mover_datos_y_borrar_temp env project_id dataset temp_table final_table =
     andthen (new_client NewBigQueryClient (bigquery_Client env)) (\<lambda>_.
     andthen (client_query_insert_select env (table_id_of project_id dataset final_table)
                (table_id_of project_id dataset temp_table)) (\<lambda>_.
     let table_id = table_id_of project_id dataset temp_table in
     andthen (client_delete_table env table_id) (\<lambda>_.
     ret [Lit ''Datos movidos a '', Fmt (JStr final_table), Lit '' y tabla temporal '',
          Fmt (JStr temp_table), Lit '' eliminada.''])))"


text \<open>
  The format dispatch of \<open>cargar_archivos_en_tabla_temporal_v_premium\<close> (lines 152 to
  184), for one element of \<open>archivos\<close>: \<open>Some datos\<close> when the file was read, \<open>None\<close>
  at a \<open>continue\<close>.  An element that is not a string has no \<open>endswith\<close>.
\<close>

definition leer_datos_premium :: "gcp \<Rightarrow> string \<Rightarrow> json \<Rightarrow> json list option io" where
  "leer_datos_premium env bucket_name archivo =
     (case archivo of
        JStr nombre \<Rightarrow>
          if endswith nombre ''/'' then
            andthen (py_print [Lit ''Advertencia: '', Fmt archivo,
                               Lit '' parece ser un directorio y no un archivo. Saltando...'']) (\<lambda>_.
            ret None)
          else
            andthen (py_print [Lit ''Leyendo archivo '', Fmt archivo, Lit '' desde GCS...'']) (\<lambda>_.
            if endswith nombre ''.json'' then
              andthen (extern (DownloadAsText bucket_name archivo)
                         (blob_download_as_text env bucket_name archivo)) (\<lambda>contenido.
              andthen (extern (JsonLoads contenido) (json_loads env contenido)) (\<lambda>contenido_json.
              case contenido_json of
                JList datos \<Rightarrow> ret (Some datos)
              | _ \<Rightarrow> raise (Exn ValueError [Lit ''El archivo '', Fmt archivo,
                                            Lit '' no contiene un array de objetos JSON.''])))
            else if endswith nombre ''.parquet'' then
              andthen (extern (DownloadAsBytes bucket_name archivo)
                         (blob_download_as_bytes env bucket_name archivo)) (\<lambda>contenido.
              andthen (extern (ReadParquet contenido) (pd_read_parquet env contenido)) (\<lambda>df.
              ret (Some (to_dict_records df))))
            else if endswith nombre ''.pkl'' then
              andthen (extern (DownloadAsBytes bucket_name archivo)
                         (blob_download_as_bytes env bucket_name archivo)) (\<lambda>contenido.
              andthen (extern (ReadPickle contenido) (pd_read_pickle env contenido)) (\<lambda>df.
              ret (Some (to_dict_records df))))
            else
              andthen (py_print [Lit ''Advertencia: Formato de archivo no soportado ('',
                                 Fmt archivo, Lit ''). Saltando...'']) (\<lambda>_.
              ret None))
      | _ \<Rightarrow>
          raise (Exn AttributeError [Lit [CHR 0x27], FmtTypeName archivo,
                   Lit ([CHR 0x27] @ '' object has no attribute '' @ [CHR 0x27] @ ''endswith''
                        @ [CHR 0x27])]))"

text \<open>The body of the \<open>try\<close> inside the loop (lines 152 to 192).\<close>

definition cargar_archivo_premium_try ::
    "gcp \<Rightarrow> string \<Rightarrow> string \<Rightarrow> string \<Rightarrow> json \<Rightarrow> unit io" where
  "cargar_archivo_premium_try env bucket_name table_id temp_table archivo =
     andthen (leer_datos_premium env bucket_name archivo) (\<lambda>leido.
     case leido of
       None \<Rightarrow> ret ()
     | Some datos \<Rightarrow>
         andthen (py_print [Lit ''Cargando datos del archivo '', Fmt archivo,
                            Lit '' en la tabla temporal '', Fmt (JStr temp_table), Lit ''...'']) (\<lambda>_.
         andthen (insert_rows_json env table_id datos) (\<lambda>errors.
         if errors \<noteq> [] then
           raise (Exn RuntimeError [Lit ''Error al insertar datos del archivo '', Fmt archivo,
                                    Lit '': '', Fmt (JList errors)])
         else
           py_print [Lit ''Datos del archivo '', Fmt archivo,
                     Lit '' cargados exitosamente en la tabla temporal.''])))"

text \<open>The loop: the \<open>except\<close> clause prints and raises again (lines 194 to 196), which
  ends the loop.\<close>

fun cargar_archivos_premium_loop ::
    "gcp \<Rightarrow> string \<Rightarrow> string \<Rightarrow> string \<Rightarrow> json list \<Rightarrow> unit io" where
  "cargar_archivos_premium_loop env bucket_name table_id temp_table [] w = (Inr (), w)"
| "cargar_archivos_premium_loop env bucket_name table_id temp_table (archivo # rest) w =
     (case cargar_archivo_premium_try env bucket_name table_id temp_table archivo w of
        (Inr u, w') \<Rightarrow> cargar_archivos_premium_loop env bucket_name table_id temp_table rest w'
      | (Inl e, w') \<Rightarrow>
          (Inl e, snd (py_print ([Lit ''Error al procesar el archivo '', Fmt archivo, Lit '': '']
                                 @ str_exn e) w')))"

text \<open>Lines 137 to 141: a string argument is parsed as JSON; the \<open>ValueError\<close> raised
  for a \<open>JSONDecodeError\<close> keeps the original only as its cause.\<close>

definition convertir_archivos :: "gcp \<Rightarrow> json \<Rightarrow> json io" where
  "convertir_archivos env archivos =
     (case archivos of
        JStr s \<Rightarrow>
          (\<lambda>w. case extern (JsonLoads s) (json_loads env s) w of
                  (Inl e, w') \<Rightarrow>
                    if exn_class_of e = JSONDecodeError then
                      (Inl (Exn ValueError
                         [Lit (''Error al decodificar '' @ [CHR 0x27] @ ''archivos'' @ [CHR 0x27]
                               @ ''. Aseg'' @ [CHR 0xC3, CHR 0xBA]
                               @ ''rate de que sea una lista v'' @ [CHR 0xC3, CHR 0xA1]
                               @ ''lida.'')]), w')
                    else (Inl e, w')
                | (Inr v, w') \<Rightarrow> (Inr v, w'))
      | _ \<Rightarrow> ret archivos)"

definition cargar_archivos_en_tabla_temporal_v_premium ::
    "gcp \<Rightarrow> string \<Rightarrow> json \<Rightarrow> string \<Rightarrow> string \<Rightarrow> string \<Rightarrow> unit io" where
  "cargar_archivos_en_tabla_temporal_v_premium env bucket_name archivos project_id dataset
       temp_table =
     andthen (py_print [Lit (''Tipo de '' @ [CHR 0x27] @ ''archivos'' @ [CHR 0x27]
                             @ '' recibido: ''), FmtType archivos]) (\<lambda>_.
     andthen (py_print [Lit (''Contenido de '' @ [CHR 0x27] @ ''archivos'' @ [CHR 0x27]
                             @ '' recibido: ''), Fmt archivos]) (\<lambda>_.
     andthen (convertir_archivos env archivos) (\<lambda>archivos.
     case archivos of
       JList (x # xs) \<Rightarrow>
         andthen (new_client NewBigQueryClient (bigquery_Client env)) (\<lambda>_.
         andthen (new_client NewStorageClient (storage_Client env)) (\<lambda>_.
         let table_id = table_id_of project_id dataset temp_table in
         cargar_archivos_premium_loop env bucket_name table_id temp_table (x # xs)))
     | _ \<Rightarrow>
         raise (Exn ValueError
                  [Lit (''La lista de archivos no es v'' @ [CHR 0xC3, CHR 0xA1]
                        @ ''lida o est'' @ [CHR 0xC3, CHR 0xA1] @ '' vac'' @ [CHR 0xC3, CHR 0xAD]
                        @ ''a.'')]))))"


section \<open>Observations\<close>

definition row_count :: "world \<Rightarrow> string \<Rightarrow> nat" where
  \<comment> \<open>the number of rows of a table; an absent table has none\<close>
  "row_count w table_id = (case tables w table_id of None \<Rightarrow> 0 | Some rows \<Rightarrow> length rows)"

fun is_download :: "call \<Rightarrow> bool" where
  "is_download (DownloadAsText b n) = True"
| "is_download (DownloadAsBytes b n) = True"
| "is_download c = False"

section \<open>A concrete bucket and warehouse\<close>

text \<open>
  One run's surroundings, for evaluating the functions: a bucket with a directory marker,
  a JSON-lines file, a file already in the ledger, a Parquet file, a JSON array, a
  truncated JSON file, an empty array and a text file; services that answer.
\<close>

definition a_json :: string where
  "a_json = ''{\"x\": 1}'' @ [CHR 0x0A] @ ''{\"x\": 2}''"

definition lista_json :: string where
  "lista_json = ''[{\"x\": 1}, {\"x\": 2}]''"

definition malo_json :: string where
  "malo_json = ''{\"x\": ''"

definition no_such_object :: exn where
  "no_such_object = Exn OtherException [Lit ''404 No such object'']"

definition env_demo :: gcp where
  "env_demo = \<lparr>
     bigquery_Client = None,
     storage_Client = None,
     query_nombre_archivo = (\<lambda>q. Inr [''datos/b.json'']),
     list_blobs = (\<lambda>b p. Inr [''datos/'', ''datos/a.json'', ''datos/b.json'', ''datos/c.parquet'']),
     blob_download_as_text = (\<lambda>b n.
        if n = JStr ''datos/a.json'' then Inr a_json
        else if n = JStr ''datos/lista.json'' then Inr lista_json
        else if n = JStr ''datos/malo.json'' then Inr malo_json
        else if n = JStr ''datos/vacio.json'' then Inr ''[]''
        else if n = JStr ''datos/notas.txt'' then Inr ''hola''
        else if n = JStr ''datos/'' then Inr []
        else Inl no_such_object),
     blob_download_as_bytes = (\<lambda>b n.
        if n = JStr ''datos/c.parquet'' then Inr ''PAR1'' else Inl no_such_object),
     pd_read_json_lines = (\<lambda>s.
        if s = a_json then Inr \<lparr>df_columns = [''x''], df_rows = [[JInt 1], [JInt 2]]\<rparr>
        else if s = ''[]'' \<or> s = [] then Inr \<lparr>df_columns = [], df_rows = []\<rparr>
        else Inl (Exn ValueError [Lit ''Expected object or value''])),
     json_loads = (\<lambda>s.
        if s = lista_json then Inr (JList [JDict [(''x'', JInt 1)], JDict [(''x'', JInt 2)]])
        else if s = ''[]'' then Inr (JList [])
        else Inl (Exn JSONDecodeError [Lit ''Expecting value''])),
     pd_read_parquet = (\<lambda>s.
        if s = ''PAR1'' then Inr \<lparr>df_columns = [''x''], df_rows = [[JInt 3], [JInt 4], [JInt 5]]\<rparr>
        else Inl (Exn OtherException [Lit ''ArrowInvalid''])),
     pd_read_pickle = (\<lambda>s. Inl (Exn OtherException [Lit ''UnpicklingError''])),
     load_job = (\<lambda>df t. LoadOk),
     insert_errors = (\<lambda>t rows. Inr []),
     query_insert_select = (\<lambda>f t. None),
     delete_table_fails = (\<lambda>t. None),
     datetime_now_isoformat = (\<lambda>i. ''2024-11-05T10:00:00'')
   \<rparr>"

definition service_unavailable :: exn where
  "service_unavailable = Exn OtherException [Lit ''503 Service Unavailable'']"

definition w_demo :: world where
  "w_demo = \<lparr>
     tables = (\<lambda>t.
        if t = ''p.d.tmp'' then Some []
        else if t = ''p.d.final'' then Some [JDict [(''x'', JInt 0)]]
        else if t = ''p.d.archivos_procesados'' then
          Some [JDict [(''nombre_archivo'', JStr ''datos/b.json''),
                       (''fecha_carga'', JStr ''2024-11-04T10:00:00'')]]
        else None),
     calls = [],
     stdout = []
   \<rparr>"

definition w_staged :: world where
  \<comment> \<open>the same warehouse with two rows staged\<close>
  "w_staged = w_demo\<lparr>tables := (tables w_demo)(''p.d.tmp'' \<mapsto>
                [JDict [(''x'', JInt 1)], JDict [(''x'', JInt 2)]])\<rparr>"

definition env_sin_novedades :: gcp where
  \<comment> \<open>the bucket holds only the file the ledger already has\<close>
  "env_sin_novedades = env_demo\<lparr>list_blobs := (\<lambda>b p. Inr [''datos/b.json''])\<rparr>"

definition env_bigquery_caido :: gcp where
  \<comment> \<open>the warehouse answers no request\<close>
  "env_bigquery_caido = env_demo\<lparr>
     query_nombre_archivo := (\<lambda>q. Inl service_unavailable),
     insert_errors := (\<lambda>t rows. Inl service_unavailable),
     query_insert_select := (\<lambda>f t. Some service_unavailable)\<rparr>"

definition env_fila_rechazada :: gcp where
  \<comment> \<open>the streaming insert answers with an error for the first row\<close>
  "env_fila_rechazada = env_demo\<lparr>
     insert_errors := (\<lambda>t rows. Inr [JDict [(''index'', JInt 0),
                                             (''errors'', JList [JStr ''invalid''])]])\<rparr>"


definition env_tablas_vacias :: gcp where
  \<comment> \<open>every binary object decodes to a table with a column and no rows\<close>
  "env_tablas_vacias = env_demo\<lparr>
     blob_download_as_bytes := (\<lambda>b n. Inr ''PAR1''),
     pd_read_parquet := (\<lambda>s. Inr \<lparr>df_columns = [''x''], df_rows = []\<rparr>),
     pd_read_pickle := (\<lambda>s. Inr \<lparr>df_columns = [''x''], df_rows = []\<rparr>)\<rparr>"

section \<open>Properties\<close>

lemmas io_defs = andthen_def new_client_def extern_def py_print_def ret_def raise_def

lemma table_id_of_inj: "table_id_of p d t1 = table_id_of p d t2 \<longleftrightarrow> t1 = t2"
  by (simp add: table_id_of_def)

text \<open>
  Claim C1, as the code has it.  When the ledger query answers the names \<open>B\<close> and the
  bucket listing answers the names \<open>A\<close>, \<open>obtener_archivos_nuevos\<close> returns exactly
  the elements of \<open>A\<close> that are not in \<open>B\<close>, in the order of \<open>A\<close>: as a set it is
  \<open>A - B\<close>, it is disjoint from \<open>B\<close>, it is a subsequence of \<open>A\<close>, and it is empty
  exactly when nothing of \<open>A\<close> is outside \<open>B\<close> (so for an empty \<open>A\<close>).
  \<open>obtener_archivos_nuevos_version_premium\<close> first drops from \<open>A\<close> the names that
  end in \<open>/\<close> (line 93) and returns exactly the remaining names that are not in \<open>B\<close>,
  in the order of \<open>A\<close>; its result too is disjoint from \<open>B\<close>, and empty for an empty
  \<open>A\<close>.
\<close>

theorem C1_new_objects_is_listing_minus_ledger:
  assumes "bigquery_Client env = None" and "storage_Client env = None"
    and "query_nombre_archivo env
           (query_archivos_procesados (archivos_procesados_table_id project_id dataset)) = Inr B"
    and "list_blobs env bucket_name blob_prefix = Inr A"
  shows "(let nuevos = fst (obtener_archivos_nuevos env bucket_name blob_prefix project_id dataset w)
          in nuevos = [a \<leftarrow> A. a \<notin> set B] \<and> set nuevos = set A - set B \<and>
             set nuevos \<inter> set B = {} \<and> subseq nuevos A \<and> length nuevos \<le> length A \<and>
             (nuevos = [] \<longleftrightarrow> set A \<subseteq> set B)) \<and>
         (let archivos = [n \<leftarrow> A. \<not> endswith n ''/''];
              nuevos = [a \<leftarrow> archivos. a \<notin> set B]
          in fst (obtener_archivos_nuevos_version_premium env bucket_name blob_prefix project_id
                    dataset w) = Inr nuevos \<and>
             set nuevos = set archivos - set B \<and> set nuevos \<inter> set B = {} \<and>
             subseq nuevos archivos \<and> subseq nuevos A \<and> length nuevos \<le> length A \<and>
             (nuevos = [] \<longleftrightarrow> set archivos \<subseteq> set B))"
proof -
  have plain: "fst (obtener_archivos_nuevos env bucket_name blob_prefix project_id dataset w)
                 = [a \<leftarrow> A. a \<notin> set B]"
    using assms
    by (simp add: obtener_archivos_nuevos_def obtener_archivos_nuevos_try_def io_defs Let_def)
  have prem: "fst (obtener_archivos_nuevos_version_premium env bucket_name blob_prefix project_id
                    dataset w) = Inr [a \<leftarrow> [n \<leftarrow> A. \<not> endswith n ''/'']. a \<notin> set B]"
    using assms
    by (simp add: obtener_archivos_nuevos_version_premium_def io_defs Let_def)
  have gen: "set [a \<leftarrow> xs. a \<notin> set B] = set xs - set B \<and> set [a \<leftarrow> xs. a \<notin> set B] \<inter> set B = {}
      \<and> subseq [a \<leftarrow> xs. a \<notin> set B] xs \<and> length [a \<leftarrow> xs. a \<notin> set B] \<le> length xs
      \<and> ([a \<leftarrow> xs. a \<notin> set B] = [] \<longleftrightarrow> set xs \<subseteq> set B)" for xs :: "string list"
    by (auto simp: filter_empty_conv)
  have sub2: "subseq [a \<leftarrow> [n \<leftarrow> A. \<not> endswith n ''/'']. a \<notin> set B] A"
    by (meson subseq_filter_left subseq_order.trans)
  have len2: "length [a \<leftarrow> [n \<leftarrow> A. \<not> endswith n ''/'']. a \<notin> set B] \<le> length A"
    by (meson length_filter_le le_trans)
  show ?thesis
    unfolding Let_def plain prem fst_conv
    by (intro conjI refl gen[THEN conjunct1] gen[THEN conjunct2, THEN conjunct1]
          gen[THEN conjunct2, THEN conjunct2, THEN conjunct1]
          gen[THEN conjunct2, THEN conjunct2, THEN conjunct2, THEN conjunct1]
          gen[THEN conjunct2, THEN conjunct2, THEN conjunct2, THEN conjunct2] sub2 len2)
qed

theorem C1_new_objects_is_listing_minus_ledger_witness:
  "bigquery_Client env_demo = None \<and> storage_Client env_demo = None \<and>
   query_nombre_archivo env_demo
     (query_archivos_procesados (archivos_procesados_table_id ''p'' ''d'')) = Inr [''datos/b.json''] \<and>
   list_blobs env_demo ''bucket'' ''datos/''
     = Inr [''datos/'', ''datos/a.json'', ''datos/b.json'', ''datos/c.parquet''] \<and>
   fst (obtener_archivos_nuevos env_demo ''bucket'' ''datos/'' ''p'' ''d'' w_demo)
     = [''datos/'', ''datos/a.json'', ''datos/c.parquet''] \<and>
   fst (obtener_archivos_nuevos_version_premium env_demo ''bucket'' ''datos/'' ''p'' ''d'' w_demo)
     = Inr [''datos/a.json'', ''datos/c.parquet'']"
proof -
  have h1: "bigquery_Client env_demo = None" and h2: "storage_Client env_demo = None"
    and h3: "query_nombre_archivo env_demo
       (query_archivos_procesados (archivos_procesados_table_id ''p'' ''d'')) = Inr [''datos/b.json'']"
    and h4: "list_blobs env_demo ''bucket'' ''datos/''
       = Inr [''datos/'', ''datos/a.json'', ''datos/b.json'', ''datos/c.parquet'']"
    by (simp_all add: env_demo_def)
  show ?thesis
    using h1 h2 h3 h4 C1_new_objects_is_listing_minus_ledger[OF h1 h2 h3 h4, of w_demo]
    by (simp add: Let_def endswith_def)
qed

text \<open>The claim as stated fails for the premium variant: a listed directory marker that
  is not in the ledger is not returned.\<close>

theorem C1_new_objects_is_listing_minus_ledger_counterexample:
  "list_blobs env_demo ''bucket'' ''datos/''
     = Inr [''datos/'', ''datos/a.json'', ''datos/b.json'', ''datos/c.parquet''] \<and>
   query_nombre_archivo env_demo
     (query_archivos_procesados (archivos_procesados_table_id ''p'' ''d'')) = Inr [''datos/b.json''] \<and>
   [a \<leftarrow> [''datos/'', ''datos/a.json'', ''datos/b.json'', ''datos/c.parquet''].
      a \<notin> set [''datos/b.json'']]
     = [''datos/'', ''datos/a.json'', ''datos/c.parquet''] \<and>
   fst (obtener_archivos_nuevos_version_premium env_demo ''bucket'' ''datos/'' ''p'' ''d'' w_demo)
     = Inr [''datos/a.json'', ''datos/c.parquet''] \<and>
   fst (obtener_archivos_nuevos_version_premium env_demo ''bucket'' ''datos/'' ''p'' ''d'' w_demo)
     \<noteq> Inr [a \<leftarrow> [''datos/'', ''datos/a.json'', ''datos/b.json'', ''datos/c.parquet''].
               a \<notin> set [''datos/b.json'']]"
  by (simp add: obtener_archivos_nuevos_version_premium_def io_defs Let_def endswith_def
        env_demo_def)

text \<open>
  Claim C2.  \<open>mover_datos_y_borrar_temp\<close>, for a staging table that is not the final
  table: when it raises, the staging table is what it was (same rows, same row count);
  when it returns, the staging table is deleted (no rows) and the final table has as many
  rows more as staging had at the call.
\<close>

theorem C2_promotion_clears_staging_only_on_success:
  assumes "temp_table \<noteq> final_table"
  shows "(case mover_datos_y_borrar_temp env project_id dataset temp_table final_table w of
            (Inl e, w') \<Rightarrow>
              tables w' (table_id_of project_id dataset temp_table)
                = tables w (table_id_of project_id dataset temp_table) \<and>
              row_count w' (table_id_of project_id dataset temp_table)
                = row_count w (table_id_of project_id dataset temp_table)
          | (Inr msg, w') \<Rightarrow>
              tables w' (table_id_of project_id dataset temp_table) = None \<and>
              row_count w' (table_id_of project_id dataset temp_table) = 0 \<and>
              row_count w' (table_id_of project_id dataset final_table)
                = row_count w (table_id_of project_id dataset final_table)
                  + row_count w (table_id_of project_id dataset temp_table))"
  using assms
  by (auto simp: mover_datos_y_borrar_temp_def client_query_insert_select_def
        client_delete_table_def io_defs Let_def row_count_def table_id_of_inj
      split: option.splits sum.splits prod.splits)

theorem C2_promotion_clears_staging_only_on_success_witness:
  "''tmp'' \<noteq> ''final'' \<and>
   fst (mover_datos_y_borrar_temp env_demo ''p'' ''d'' ''tmp'' ''final'' w_staged)
     = Inr [Lit ''Datos movidos a '', Fmt (JStr ''final''), Lit '' y tabla temporal '',
            Fmt (JStr ''tmp''), Lit '' eliminada.''] \<and>
   row_count w_staged ''p.d.tmp'' = 2 \<and> row_count w_staged ''p.d.final'' = 1 \<and>
   row_count (snd (mover_datos_y_borrar_temp env_demo ''p'' ''d'' ''tmp'' ''final'' w_staged))
     ''p.d.tmp'' = 0 \<and>
   row_count (snd (mover_datos_y_borrar_temp env_demo ''p'' ''d'' ''tmp'' ''final'' w_staged))
     ''p.d.final'' = 3 \<and>
   fst (mover_datos_y_borrar_temp env_bigquery_caido ''p'' ''d'' ''tmp'' ''final'' w_staged)
     = Inl service_unavailable \<and>
   row_count (snd (mover_datos_y_borrar_temp env_bigquery_caido ''p'' ''d'' ''tmp'' ''final''
     w_staged)) ''p.d.tmp'' = 2"
proof -
  have h: "''tmp'' \<noteq> ''final''" by simp
  have ok: "fst (mover_datos_y_borrar_temp env_demo ''p'' ''d'' ''tmp'' ''final'' w_staged)
     = Inr [Lit ''Datos movidos a '', Fmt (JStr ''final''), Lit '' y tabla temporal '',
            Fmt (JStr ''tmp''), Lit '' eliminada.'']"
    by (simp add: mover_datos_y_borrar_temp_def client_query_insert_select_def
          client_delete_table_def io_defs Let_def table_id_of_def env_demo_def w_staged_def
          w_demo_def)
  have ko: "fst (mover_datos_y_borrar_temp env_bigquery_caido ''p'' ''d'' ''tmp'' ''final'' w_staged)
     = Inl service_unavailable"
    by (simp add: mover_datos_y_borrar_temp_def client_query_insert_select_def
          client_delete_table_def io_defs Let_def table_id_of_def env_bigquery_caido_def
          env_demo_def w_staged_def w_demo_def)
  have ids: "table_id_of ''p'' ''d'' ''tmp'' = ''p.d.tmp''"
    "table_id_of ''p'' ''d'' ''final'' = ''p.d.final''"
    by (simp_all add: table_id_of_def)
  have before: "row_count w_staged ''p.d.tmp'' = 2" "row_count w_staged ''p.d.final'' = 1"
    by (simp_all add: row_count_def w_staged_def w_demo_def)
  obtain w1 where r1: "mover_datos_y_borrar_temp env_demo ''p'' ''d'' ''tmp'' ''final'' w_staged
      = (Inr [Lit ''Datos movidos a '', Fmt (JStr ''final''), Lit '' y tabla temporal '',
              Fmt (JStr ''tmp''), Lit '' eliminada.''], w1)"
    using ok by (metis prod.collapse)
  obtain w2 where r2: "mover_datos_y_borrar_temp env_bigquery_caido ''p'' ''d'' ''tmp'' ''final''
      w_staged = (Inl service_unavailable, w2)"
    using ko by (metis prod.collapse)
  show ?thesis
    using C2_promotion_clears_staging_only_on_success[OF h, where env = env_demo and project_id = "''p''" and dataset = "''d''"
        and w = w_staged]
      C2_promotion_clears_staging_only_on_success[OF h, where env = env_bigquery_caido and project_id = "''p''" and dataset = "''d''"
        and w = w_staged]
    by (simp add: r1 r2 ids before)
qed

text \<open>
  Claim C10.  When a client cannot be built, the ledger query fails, the bucket listing
  fails, or the body of the \<open>try\<close> raises anything else, \<open>obtener_archivos_nuevos\<close>
  prints one line and returns the empty list: the very value it returns for a bucket
  that holds nothing new, where nothing failed.
\<close>

theorem C10_intake_failure_returns_empty_list:
  assumes "bigquery_Client env = Some e \<or> storage_Client env = Some e \<or>
           query_nombre_archivo env
             (query_archivos_procesados (archivos_procesados_table_id project_id dataset)) = Inl e \<or>
           list_blobs env bucket_name blob_prefix = Inl e \<or>
           fst (obtener_archivos_nuevos_try env bucket_name blob_prefix project_id dataset w) = Inl e"
  shows "fst (obtener_archivos_nuevos env bucket_name blob_prefix project_id dataset w) = [] \<and>
         (\<exists>e'. stdout (snd (obtener_archivos_nuevos env bucket_name blob_prefix project_id dataset w))
                 = stdout (snd (obtener_archivos_nuevos_try env bucket_name blob_prefix project_id
                                  dataset w))
                   @ [Lit ''Error en obtener_archivos_nuevos: '' # str_exn e']) \<and>
         fst (obtener_archivos_nuevos env bucket_name blob_prefix project_id dataset w)
           = fst (obtener_archivos_nuevos env_sin_novedades bucket_name blob_prefix project_id
                    dataset w) \<and>
         fst (obtener_archivos_nuevos_try env_sin_novedades bucket_name blob_prefix project_id
                dataset w) = Inr []"
proof -
  have fails: "\<exists>e'. fst (obtener_archivos_nuevos_try env bucket_name blob_prefix project_id dataset w)
                 = Inl e'"
    using assms
    by (auto simp: obtener_archivos_nuevos_try_def io_defs Let_def split: option.splits sum.splits)
  then obtain e' w' where r: "obtener_archivos_nuevos_try env bucket_name blob_prefix project_id
      dataset w = (Inl e', w')"
    by (metis fst_conv surj_pair)
  have "fst (obtener_archivos_nuevos_try env_sin_novedades bucket_name blob_prefix project_id
      dataset w) = Inr []"
    by (simp add: obtener_archivos_nuevos_try_def io_defs Let_def env_sin_novedades_def env_demo_def)
  then obtain w2 where ok: "obtener_archivos_nuevos_try env_sin_novedades bucket_name
      blob_prefix project_id dataset w = (Inr [], w2)"
    by (metis fst_conv surj_pair)
  show ?thesis
    by (auto simp: obtener_archivos_nuevos_def py_print_def r ok)
qed

theorem C10_intake_failure_returns_empty_list_witness:
  "query_nombre_archivo env_bigquery_caido
     (query_archivos_procesados (archivos_procesados_table_id ''p'' ''d'')) = Inl service_unavailable \<and>
   obtener_archivos_nuevos env_bigquery_caido ''bucket'' ''datos/'' ''p'' ''d'' w_demo
     = ([], w_demo\<lparr>calls := [NewBigQueryClient, NewStorageClient,
                               Query (query_archivos_procesados ''p.d.archivos_procesados'')],
                    stdout := [[Lit ''Error en obtener_archivos_nuevos: '',
                                Lit ''503 Service Unavailable'']]\<rparr>) \<and>
   fst (obtener_archivos_nuevos env_sin_novedades ''bucket'' ''datos/'' ''p'' ''d'' w_demo) = []"
proof -
  have h: "query_nombre_archivo env_bigquery_caido
     (query_archivos_procesados (archivos_procesados_table_id ''p'' ''d'')) = Inl service_unavailable"
    by (simp add: env_bigquery_caido_def env_demo_def)
  have ev: "obtener_archivos_nuevos env_bigquery_caido ''bucket'' ''datos/'' ''p'' ''d'' w_demo
     = ([], w_demo\<lparr>calls := [NewBigQueryClient, NewStorageClient,
                               Query (query_archivos_procesados ''p.d.archivos_procesados'')],
                    stdout := [[Lit ''Error en obtener_archivos_nuevos: '',
                                Lit ''503 Service Unavailable'']]\<rparr>)"
    by (simp add: obtener_archivos_nuevos_def obtener_archivos_nuevos_try_def io_defs Let_def
          env_bigquery_caido_def env_demo_def w_demo_def service_unavailable_def
          archivos_procesados_table_id_def)
  show ?thesis
    using h ev C10_intake_failure_returns_empty_list[where env = env_bigquery_caido and e = service_unavailable and project_id = "''p''"
        and dataset = "''d''" and bucket_name = "''bucket''" and blob_prefix = "''datos/''"
        and w = w_demo]
    by simp
qed

section \<open>The loaders and the ledger writer\<close>

lemma world_update_order [simp]:
  "calls_update g (stdout_update f w) = stdout_update f (calls_update g w)"
  "tables_update h (stdout_update f w) = stdout_update f (tables_update h w)"
  "tables_update h (calls_update g w) = calls_update g (tables_update h w)"
  by (cases w; simp)+

lemma endswith_iff: "endswith s suf \<longleftrightarrow> (\<exists>p. s = p @ suf)"
proof
  assume "endswith s suf"
  then have "s = take (length s - length suf) s @ suf"
    by (metis append_take_drop_id endswith_def)
  then show "\<exists>p. s = p @ suf" ..
next
  assume "\<exists>p. s = p @ suf"
  then show "endswith s suf" by (auto simp: endswith_def)
qed

lemma endswith_last: "endswith s suf \<Longrightarrow> suf \<noteq> [] \<Longrightarrow> last s = last suf"
  by (auto simp: endswith_iff)

lemma json_not_dir: "endswith nombre ''.json'' \<Longrightarrow> \<not> endswith nombre ''/''"
  using endswith_last[of nombre "''.json''"] endswith_last[of nombre "''/''"] by auto

lemma cargar_archivo_try_decode_error:
  assumes "blob_download_as_text env bucket_name archivo = Inr contenido"
    and "pd_read_json_lines env contenido = Inl e"
  shows "cargar_archivo_try env bucket_name project_id dataset temp_table archivo w
           = (Inl e, w\<lparr>calls := calls w @ [DownloadAsText bucket_name archivo,
                                            ReadJsonLines contenido]\<rparr>)"
  using assms by (simp add: cargar_archivo_try_def io_defs)

lemma cargar_archivo_try_empty:
  assumes "blob_download_as_text env bucket_name archivo = Inr contenido"
    and "pd_read_json_lines env contenido = Inr df" and "df_empty df"
  shows "cargar_archivo_try env bucket_name project_id dataset temp_table archivo w
           = (Inl (Exn ValueError [Lit ''El archivo '', Fmt archivo, Lit '' no contiene datos.'']),
              w\<lparr>calls := calls w @ [DownloadAsText bucket_name archivo,
                                     ReadJsonLines contenido]\<rparr>)"
  using assms by (simp add: cargar_archivo_try_def io_defs)

lemma leer_datos_premium_json:
  assumes "endswith nombre ''.json''"
    and "blob_download_as_text env bucket_name (JStr nombre) = Inr contenido"
  shows "leer_datos_premium env bucket_name (JStr nombre) w
           = (case json_loads env contenido of
                Inl e \<Rightarrow> Inl e
              | Inr (JList datos) \<Rightarrow> Inr (Some datos)
              | Inr v \<Rightarrow> Inl (Exn ValueError [Lit ''El archivo '', Fmt (JStr nombre),
                                   Lit '' no contiene un array de objetos JSON.'']),
              w\<lparr>calls := calls w @ [DownloadAsText bucket_name (JStr nombre), JsonLoads contenido],
                stdout := stdout w @ [[Lit ''Leyendo archivo '', Fmt (JStr nombre),
                                       Lit '' desde GCS...'']]\<rparr>)"
  using assms json_not_dir[OF assms(1)]
  by (simp add: leer_datos_premium_def io_defs split: sum.splits json.splits)

lemma premium_top:
  assumes "bigquery_Client env = None" and "storage_Client env = None"
  shows "cargar_archivos_en_tabla_temporal_v_premium env bucket_name (JList (x # xs)) project_id
           dataset temp_table w
         = cargar_archivos_premium_loop env bucket_name (table_id_of project_id dataset temp_table)
             temp_table (x # xs)
             (w\<lparr>calls := calls w @ [NewBigQueryClient, NewStorageClient],
                stdout := stdout w @
                  [[Lit (''Tipo de '' @ [CHR 0x27] @ ''archivos'' @ [CHR 0x27] @ '' recibido: ''),
                    FmtType (JList (x # xs))],
                   [Lit (''Contenido de '' @ [CHR 0x27] @ ''archivos'' @ [CHR 0x27]
                         @ '' recibido: ''), Fmt (JList (x # xs))]]\<rparr>)"
  using assms
  by (simp add: cargar_archivos_en_tabla_temporal_v_premium_def convertir_archivos_def io_defs
        Let_def del: cargar_archivos_premium_loop.simps)

lemma plain_loop_decode_error:
  assumes "blob_download_as_text env bucket_name archivo = Inr contenido"
    and "pd_read_json_lines env contenido = Inl e"
  shows "cargar_archivos_loop env bucket_name project_id dataset temp_table (archivo # rest) w
        = cargar_archivos_loop env bucket_name project_id dataset temp_table rest
            (w\<lparr>calls := calls w @ [DownloadAsText bucket_name archivo, ReadJsonLines contenido],
               stdout := stdout w @ [cargar_archivo_except archivo e]\<rparr>)"
  using assms by (simp add: cargar_archivo_try_decode_error py_print_def)

lemma premium_loop_decode_error:
  assumes "endswith nombre ''.json''"
    and "blob_download_as_text env bucket_name (JStr nombre) = Inr contenido"
    and "json_loads env contenido = Inl e"
  shows "cargar_archivos_premium_loop env bucket_name table_id temp_table (JStr nombre # rest) w
        = (Inl e,
           w\<lparr>calls := calls w @ [DownloadAsText bucket_name (JStr nombre), JsonLoads contenido],
             stdout := stdout w @
               [[Lit ''Leyendo archivo '', Fmt (JStr nombre), Lit '' desde GCS...''],
                [Lit ''Error al procesar el archivo '', Fmt (JStr nombre), Lit '': '']
                @ str_exn e]\<rparr>)"
  using assms
  by (simp add: cargar_archivo_premium_try_def leer_datos_premium_json andthen_def py_print_def)

lemma plain_loop_empty:
  assumes "blob_download_as_text env bucket_name archivo = Inr contenido"
    and "pd_read_json_lines env contenido = Inr df" and "df_empty df"
  shows "cargar_archivos_loop env bucket_name project_id dataset temp_table (archivo # rest) w
        = cargar_archivos_loop env bucket_name project_id dataset temp_table rest
            (w\<lparr>calls := calls w @ [DownloadAsText bucket_name archivo, ReadJsonLines contenido],
               stdout := stdout w @
                 [[Lit ''Error al procesar el archivo '', Fmt archivo, Lit '': '',
                   Lit ''El archivo '', Fmt archivo, Lit '' no contiene datos.'']]\<rparr>)"
  using assms
  by (simp add: cargar_archivo_try_empty py_print_def cargar_archivo_except_def)

lemma premium_try_empty:
  assumes "endswith nombre ''.json''"
    and "blob_download_as_text env bucket_name (JStr nombre) = Inr contenido"
    and "json_loads env contenido = Inr (JList [])"
  shows "cargar_archivo_premium_try env bucket_name table_id temp_table (JStr nombre) w
        = (let w1 = w\<lparr>calls := calls w @ [DownloadAsText bucket_name (JStr nombre),
                                            JsonLoads contenido, InsertRowsJson table_id []],
                        stdout := stdout w @
                          [[Lit ''Leyendo archivo '', Fmt (JStr nombre), Lit '' desde GCS...''],
                           [Lit ''Cargando datos del archivo '', Fmt (JStr nombre),
                            Lit '' en la tabla temporal '', Fmt (JStr temp_table), Lit ''...'']]\<rparr>
           in case tables w table_id of
                None \<Rightarrow> (Inl (Exn OtherException [Lit ''Not found: Table '', Lit table_id]), w1)
              | Some old \<Rightarrow>
                  (case insert_errors env table_id [] of
                     Inl e \<Rightarrow> (Inl e, w1)
                   | Inr errors \<Rightarrow>
                       if errors = [] then
                         (Inr (), w1\<lparr>stdout := stdout w1 @
                            [[Lit ''Datos del archivo '', Fmt (JStr nombre),
                              Lit '' cargados exitosamente en la tabla temporal.'']]\<rparr>)
                       else
                         (Inl (Exn RuntimeError [Lit ''Error al insertar datos del archivo '',
                                 Fmt (JStr nombre), Lit '': '', Fmt (JList errors)]), w1)))"
proof -
  have idem: "(tables w)(table_id \<mapsto> old) = tables w" if "tables w table_id = Some old" for old
    using that by (simp add: fun_upd_idem)
  have same: "w\<lparr>tables := tables w\<rparr> = w"
    by simp
  show ?thesis
    using assms
    by (simp add: cargar_archivo_premium_try_def leer_datos_premium_json andthen_def py_print_def
          insert_rows_json_def raise_def ret_def Let_def idem
        split: option.splits sum.splits)
qed

lemma registrar_never_raises:
  "fst (registrar_archivos_en_bq env project_id dataset archivos_nuevos w) = Inr ()"
proof (cases "registrar_archivos_en_bq_try env project_id dataset archivos_nuevos w")
  case (Pair r w')
  then show ?thesis
    by (cases r) (simp_all add: registrar_archivos_en_bq_def py_print_def)
qed

lemma registrar_insert_raises:
  assumes "archivos_nuevos \<noteq> []" and "bigquery_Client env = None"
    and "tables w (archivos_procesados_table_id project_id dataset) = Some old"
    and "insert_errors env (archivos_procesados_table_id project_id dataset)
           (map (\<lambda>(i, archivo). JDict [(''nombre_archivo'', JStr archivo),
                   (''fecha_carga'', JStr (datetime_now_isoformat env i))])
              (enumerate 0 archivos_nuevos)) = Inl e"
  shows "registrar_archivos_en_bq env project_id dataset archivos_nuevos w
         = (Inr (),
            w\<lparr>calls := calls w @ [NewBigQueryClient,
                  InsertRowsJson (archivos_procesados_table_id project_id dataset)
                    (map (\<lambda>(i, archivo). JDict [(''nombre_archivo'', JStr archivo),
                            (''fecha_carga'', JStr (datetime_now_isoformat env i))])
                       (enumerate 0 archivos_nuevos))],
              stdout := stdout w @
                [[Lit ''Registrando archivos en BigQuery: '', Fmt (JList (map JStr archivos_nuevos))],
                 Lit ''Error en registrar_archivos_en_bq: '' # str_exn e]\<rparr>)"
  using assms
  by (simp add: registrar_archivos_en_bq_def registrar_archivos_en_bq_try_def
        insert_rows_json_def io_defs Let_def)

lemma registrar_insert_errors:
  assumes "archivos_nuevos \<noteq> []" and "bigquery_Client env = None"
    and "tables w (archivos_procesados_table_id project_id dataset) = Some old"
    and "insert_errors env (archivos_procesados_table_id project_id dataset)
           (map (\<lambda>(i, archivo). JDict [(''nombre_archivo'', JStr archivo),
                   (''fecha_carga'', JStr (datetime_now_isoformat env i))])
              (enumerate 0 archivos_nuevos)) = Inr errors"
    and "errors \<noteq> []"
  shows "registrar_archivos_en_bq env project_id dataset archivos_nuevos w
         = (Inr (),
            w\<lparr>calls := calls w @ [NewBigQueryClient,
                  InsertRowsJson (archivos_procesados_table_id project_id dataset)
                    (map (\<lambda>(i, archivo). JDict [(''nombre_archivo'', JStr archivo),
                            (''fecha_carga'', JStr (datetime_now_isoformat env i))])
                       (enumerate 0 archivos_nuevos))],
              stdout := stdout w @
                [[Lit ''Registrando archivos en BigQuery: '', Fmt (JList (map JStr archivos_nuevos))],
                 [Lit ''Error al insertar los archivos procesados: '', Fmt (JList errors)]]\<rparr>)"
  using assms
  by (simp add: registrar_archivos_en_bq_def registrar_archivos_en_bq_try_def
        insert_rows_json_def io_defs Let_def)

lemma registrar_raises_general:
  assumes "fst (registrar_archivos_en_bq_try env project_id dataset archivos_nuevos w) = Inl e"
  shows "tables (snd (registrar_archivos_en_bq env project_id dataset archivos_nuevos w)) = tables w \<and>
         stdout (snd (registrar_archivos_en_bq env project_id dataset archivos_nuevos w))
           = stdout (snd (registrar_archivos_en_bq_try env project_id dataset archivos_nuevos w))
             @ [Lit ''Error en registrar_archivos_en_bq: '' # str_exn e]"
proof -
  have unchanged: "tables (snd (registrar_archivos_en_bq_try env project_id dataset
      archivos_nuevos w)) = tables w"
    using assms
    by (auto simp: registrar_archivos_en_bq_try_def insert_rows_json_def io_defs Let_def
        split: if_splits option.splits sum.splits)
  obtain w' where r: "registrar_archivos_en_bq_try env project_id dataset archivos_nuevos w
      = (Inl e, w')"
    using assms by (metis prod.collapse)
  show ?thesis
    using unchanged by (simp add: registrar_archivos_en_bq_def r py_print_def)
qed

lemma premium_loop_unsupported:
  assumes "\<not> endswith nombre ''.json''" and "\<not> endswith nombre ''.parquet''"
    and "\<not> endswith nombre ''.pkl''"
  shows "cargar_archivos_premium_loop env bucket_name table_id temp_table (JStr nombre # rest) w
        = cargar_archivos_premium_loop env bucket_name table_id temp_table rest
            (w\<lparr>stdout := stdout w @
               (if endswith nombre ''/'' then
                  [[Lit ''Advertencia: '', Fmt (JStr nombre),
                    Lit '' parece ser un directorio y no un archivo. Saltando...'']]
                else
                  [[Lit ''Leyendo archivo '', Fmt (JStr nombre), Lit '' desde GCS...''],
                   [Lit ''Advertencia: Formato de archivo no soportado ('', Fmt (JStr nombre),
                    Lit ''). Saltando...'']])\<rparr>)"
  using assms
  by (simp add: cargar_archivo_premium_try_def leer_datos_premium_def io_defs)

lemma plain_try_downloads_and_decodes:
  assumes "blob_download_as_text env bucket_name archivo = Inr contenido"
  shows "prefix (calls w @ [DownloadAsText bucket_name archivo, ReadJsonLines contenido])
           (calls (snd (cargar_archivo_try env bucket_name project_id dataset temp_table
                          archivo w)))"
  using assms
  by (simp add: cargar_archivo_try_def load_table_from_dataframe_def io_defs Let_def
      split: sum.splits load_outcome.splits option.splits)

lemma plain_top:
  assumes "bigquery_Client env = None" and "storage_Client env = None"
  shows "cargar_archivos_en_tabla_temporal env bucket_name (JList xs) project_id dataset
           temp_table w
         = (Inr (),
            (cargar_archivos_loop env bucket_name project_id dataset temp_table xs
               (w\<lparr>calls := calls w @ [NewBigQueryClient, NewStorageClient]\<rparr>))
            \<lparr>calls := calls (cargar_archivos_loop env bucket_name project_id dataset temp_table xs
                  (w\<lparr>calls := calls w @ [NewBigQueryClient, NewStorageClient]\<rparr>))
                @ [ClientClose]\<rparr>)"
  using assms
  by (simp add: cargar_archivos_en_tabla_temporal_def io_defs)

lemma plain_try_fst_indep:
  "fst (cargar_archivo_try env bucket_name project_id dataset temp_table archivo w)
     = fst (cargar_archivo_try env bucket_name project_id dataset temp_table archivo w0)"
  by (simp add: cargar_archivo_try_def load_table_from_dataframe_def io_defs Let_def
      split: sum.splits load_outcome.splits option.splits)

lemma plain_try_downloads:
  "filter is_download (calls (snd (cargar_archivo_try env bucket_name project_id dataset
      temp_table archivo w)))
     = filter is_download (calls w) @ [DownloadAsText bucket_name archivo]"
  by (simp add: cargar_archivo_try_def load_table_from_dataframe_def io_defs Let_def
      split: sum.splits load_outcome.splits option.splits)

lemma plain_try_stdout:
  "stdout (snd (cargar_archivo_try env bucket_name project_id dataset temp_table archivo w))
     = stdout w"
  by (simp add: cargar_archivo_try_def load_table_from_dataframe_def io_defs Let_def
      split: sum.splits load_outcome.splits option.splits)

lemma plain_loop_downloads:
  "filter is_download (calls (cargar_archivos_loop env bucket_name project_id dataset temp_table
      xs w))
     = filter is_download (calls w) @ map (DownloadAsText bucket_name) xs"
proof (induction xs arbitrary: w)
  case Nil
  show ?case by simp
next
  case (Cons a xs)
  obtain r w' where step: "cargar_archivo_try env bucket_name project_id dataset temp_table a w
      = (r, w')"
    by (cases "cargar_archivo_try env bucket_name project_id dataset temp_table a w")
  have d: "filter is_download (calls w') = filter is_download (calls w) @ [DownloadAsText bucket_name a]"
    using plain_try_downloads[of env bucket_name project_id dataset temp_table a w] step by simp
  show ?case
    by (cases r) (simp_all add: step Cons.IH d py_print_def)
qed

lemma plain_loop_stdout:
  "stdout (cargar_archivos_loop env bucket_name project_id dataset temp_table xs w)
     = stdout w @ concat (map (\<lambda>a.
         case fst (cargar_archivo_try env bucket_name project_id dataset temp_table a w0) of
           Inl e \<Rightarrow> [cargar_archivo_except a e]
         | Inr u \<Rightarrow> []) xs)"
proof (induction xs arbitrary: w)
  case Nil
  show ?case by simp
next
  case (Cons a xs)
  obtain r w' where step: "cargar_archivo_try env bucket_name project_id dataset temp_table a w
      = (r, w')"
    by (cases "cargar_archivo_try env bucket_name project_id dataset temp_table a w")
  have r0: "fst (cargar_archivo_try env bucket_name project_id dataset temp_table a w0) = r"
    using plain_try_fst_indep[of env bucket_name project_id dataset temp_table a w w0] step
    by simp
  have out: "stdout w' = stdout w"
    using plain_try_stdout[of env bucket_name project_id dataset temp_table a w] step by simp
  show ?case
    by (cases r) (simp_all add: step Cons.IH r0 out py_print_def)
qed

lemma premium_loop_stops:
  assumes "fst (cargar_archivo_premium_try env bucket_name table_id temp_table archivo w) = Inl e"
  shows "cargar_archivos_premium_loop env bucket_name table_id temp_table (archivo # rest) w
         = (Inl e,
            (snd (cargar_archivo_premium_try env bucket_name table_id temp_table archivo w))
            \<lparr>stdout := stdout (snd (cargar_archivo_premium_try env bucket_name table_id
                                     temp_table archivo w))
                 @ [[Lit ''Error al procesar el archivo '', Fmt archivo, Lit '': '']
                    @ str_exn e]\<rparr>)"
  using assms
  by (cases "cargar_archivo_premium_try env bucket_name table_id temp_table archivo w")
     (simp add: py_print_def)

lemma parquet_not_dir: "endswith nombre ''.parquet'' \<Longrightarrow> \<not> endswith nombre ''/''"
  using endswith_last[of nombre "''.parquet''"] endswith_last[of nombre "''/''"] by auto

lemma pkl_not_dir: "endswith nombre ''.pkl'' \<Longrightarrow> \<not> endswith nombre ''/''"
  using endswith_last[of nombre "''.pkl''"] endswith_last[of nombre "''/''"] by auto

lemma parquet_not_json: "endswith nombre ''.parquet'' \<Longrightarrow> \<not> endswith nombre ''.json''"
  using endswith_last[of nombre "''.parquet''"] endswith_last[of nombre "''.json''"] by auto

lemma pkl_not_json: "endswith nombre ''.pkl'' \<Longrightarrow> \<not> endswith nombre ''.json''"
  using endswith_last[of nombre "''.pkl''"] endswith_last[of nombre "''.json''"] by auto

lemma pkl_not_parquet: "endswith nombre ''.pkl'' \<Longrightarrow> \<not> endswith nombre ''.parquet''"
  using endswith_last[of nombre "''.pkl''"] endswith_last[of nombre "''.parquet''"] by auto

text \<open>Whenever the format dispatch hands over a batch, it has printed one line, the one
  that announces the read, and has left the tables alone.\<close>

lemma leer_datos_premium_Some:
  assumes "leer_datos_premium env bucket_name archivo w = (Inr (Some datos), w1)"
  shows "stdout w1 = stdout w @ [[Lit ''Leyendo archivo '', Fmt archivo, Lit '' desde GCS...'']] \<and>
         tables w1 = tables w"
  using assms
  by (auto simp: leer_datos_premium_def io_defs
      split: json.splits if_splits sum.splits prod.splits)

lemma premium_try_empty_general:
  assumes "leer_datos_premium env bucket_name archivo w = (Inr (Some []), w1)"
  shows "cargar_archivo_premium_try env bucket_name table_id temp_table archivo w
        = (let w2 = w1\<lparr>calls := calls w1 @ [InsertRowsJson table_id []],
                        stdout := stdout w1 @
                          [[Lit ''Cargando datos del archivo '', Fmt archivo,
                            Lit '' en la tabla temporal '', Fmt (JStr temp_table), Lit ''...'']]\<rparr>
           in case tables w1 table_id of
                None \<Rightarrow> (Inl (Exn OtherException [Lit ''Not found: Table '', Lit table_id]), w2)
              | Some old \<Rightarrow>
                  (case insert_errors env table_id [] of
                     Inl e \<Rightarrow> (Inl e, w2)
                   | Inr errors \<Rightarrow>
                       if errors = [] then
                         (Inr (), w2\<lparr>stdout := stdout w2 @
                            [[Lit ''Datos del archivo '', Fmt archivo,
                              Lit '' cargados exitosamente en la tabla temporal.'']]\<rparr>)
                       else
                         (Inl (Exn RuntimeError [Lit ''Error al insertar datos del archivo '',
                                 Fmt archivo, Lit '': '', Fmt (JList errors)]), w2)))"
proof -
  have idem: "(tables w1)(table_id \<mapsto> old) = tables w1" if "tables w1 table_id = Some old" for old
    using that by (simp add: fun_upd_idem)
  show ?thesis
    using assms
    by (simp add: cargar_archivo_premium_try_def andthen_def py_print_def
          insert_rows_json_def raise_def ret_def Let_def idem
        split: option.splits sum.splits)
qed

lemma leer_datos_premium_parquet_empty:
  assumes "endswith nombre ''.parquet''"
    and "blob_download_as_bytes env bucket_name (JStr nombre) = Inr contenido"
    and "pd_read_parquet env contenido = Inr df" and "df_rows df = []"
  shows "leer_datos_premium env bucket_name (JStr nombre) w
           = (Inr (Some []),
              w\<lparr>calls := calls w @ [DownloadAsBytes bucket_name (JStr nombre),
                                     ReadParquet contenido],
                stdout := stdout w @ [[Lit ''Leyendo archivo '', Fmt (JStr nombre),
                                       Lit '' desde GCS...'']]\<rparr>)"
  using assms parquet_not_dir[OF assms(1)] parquet_not_json[OF assms(1)]
  by (simp add: leer_datos_premium_def io_defs to_dict_records_def)

lemma leer_datos_premium_pkl_empty:
  assumes "endswith nombre ''.pkl''"
    and "blob_download_as_bytes env bucket_name (JStr nombre) = Inr contenido"
    and "pd_read_pickle env contenido = Inr df" and "df_rows df = []"
  shows "leer_datos_premium env bucket_name (JStr nombre) w
           = (Inr (Some []),
              w\<lparr>calls := calls w @ [DownloadAsBytes bucket_name (JStr nombre),
                                     ReadPickle contenido],
                stdout := stdout w @ [[Lit ''Leyendo archivo '', Fmt (JStr nombre),
                                       Lit '' desde GCS...'']]\<rparr>)"
  using assms pkl_not_dir[OF assms(1)] pkl_not_json[OF assms(1)] pkl_not_parquet[OF assms(1)]
  by (simp add: leer_datos_premium_def io_defs to_dict_records_def)

lemma leer_datos_premium_json_empty:
  assumes "endswith nombre ''.json''"
    and "blob_download_as_text env bucket_name (JStr nombre) = Inr contenido"
    and "json_loads env contenido = Inr (JList [])"
  shows "leer_datos_premium env bucket_name (JStr nombre) w
           = (Inr (Some []),
              w\<lparr>calls := calls w @ [DownloadAsText bucket_name (JStr nombre),
                                     JsonLoads contenido],
                stdout := stdout w @ [[Lit ''Leyendo archivo '', Fmt (JStr nombre),
                                       Lit '' desde GCS...'']]\<rparr>)"
  using assms by (simp add: leer_datos_premium_json)

lemmas run_defs =
  cargar_archivos_en_tabla_temporal_def cargar_archivo_try_def cargar_archivo_except_def
  cargar_archivos_en_tabla_temporal_v_premium_def convertir_archivos_def
  cargar_archivo_premium_try_def leer_datos_premium_def insert_rows_json_def
  load_table_from_dataframe_def registrar_archivos_en_bq_def registrar_archivos_en_bq_try_def
  obtener_archivos_nuevos_def obtener_archivos_nuevos_try_def
  obtener_archivos_nuevos_version_premium_def archivos_procesados_table_id_def
  table_id_of_def io_defs Let_def endswith_def df_empty_def to_dict_records_def
  env_demo_def env_bigquery_caido_def env_fila_rechazada_def w_demo_def
  a_json_def lista_json_def malo_json_def no_such_object_def service_unavailable_def

lemma premium_intake_no_dirs:
  "list_all (\<lambda>n. \<not> endswith n ''/'')
     (case fst (obtener_archivos_nuevos_version_premium env bucket_name blob_prefix project_id
                  dataset w) of
        Inr nuevos \<Rightarrow> nuevos
      | Inl e \<Rightarrow> [])"
  by (simp add: obtener_archivos_nuevos_version_premium_def io_defs Let_def list_all_iff
      split: option.splits sum.splits)

lemma premium_loop_dir:
  "cargar_archivos_premium_loop env bucket_name table_id temp_table
       (JStr (carpeta @ ''/'') # rest) w
     = cargar_archivos_premium_loop env bucket_name table_id temp_table rest
         (w\<lparr>stdout := stdout w @
            [[Lit ''Advertencia: '', Fmt (JStr (carpeta @ ''/'')),
              Lit '' parece ser un directorio y no un archivo. Saltando...'']]\<rparr>)"
proof -
  have "endswith (carpeta @ ''/'') ''/''"
    unfolding endswith_iff by blast
  then show ?thesis
    by (simp add: cargar_archivo_premium_try_def leer_datos_premium_def io_defs)
qed

text \<open>
  Claim C3.  The premium variants leave directory markers out: no name returned by
  \<open>obtener_archivos_nuevos_version_premium\<close> ends in \<open>/\<close>, and the premium loader
  passes over such a name with a warning, reading nothing.  The plain variants do not:
  for the bucket listing \<open>datos/\<close>, \<open>datos/a.json\<close>, \<open>datos/b.json\<close>,
  \<open>datos/c.parquet\<close> and a ledger holding \<open>datos/b.json\<close>,
  \<open>obtener_archivos_nuevos\<close> returns \<open>datos/\<close> among the new objects, and
  \<open>cargar_archivos_en_tabla_temporal\<close> given \<open>datos/\<close> downloads it and hands it to
  the decoder.
\<close>

theorem C3_directory_marker_not_excluded_by_plain_intake:
  "list_all (\<lambda>n. \<not> endswith n ''/'')
     (case fst (obtener_archivos_nuevos_version_premium env bucket_name blob_prefix project_id
                  dataset w) of
        Inr nuevos \<Rightarrow> nuevos
      | Inl e \<Rightarrow> []) \<and>
   cargar_archivos_premium_loop env bucket_name table_id temp_table
       (JStr (carpeta @ ''/'') # rest) w
     = cargar_archivos_premium_loop env bucket_name table_id temp_table rest
         (w\<lparr>stdout := stdout w @
            [[Lit ''Advertencia: '', Fmt (JStr (carpeta @ ''/'')),
              Lit '' parece ser un directorio y no un archivo. Saltando...'']]\<rparr>) \<and>
   list_blobs env_demo ''bucket'' ''datos/''
     = Inr [''datos/'', ''datos/a.json'', ''datos/b.json'', ''datos/c.parquet''] \<and>
   endswith ''datos/'' ''/'' \<and>
   fst (obtener_archivos_nuevos env_demo ''bucket'' ''datos/'' ''p'' ''d'' w_demo)
     = [''datos/'', ''datos/a.json'', ''datos/c.parquet''] \<and>
   fst (obtener_archivos_nuevos_version_premium env_demo ''bucket'' ''datos/'' ''p'' ''d'' w_demo)
     = Inr [''datos/a.json'', ''datos/c.parquet''] \<and>
   calls (snd (cargar_archivos_en_tabla_temporal env_demo ''bucket'' (JList [JStr ''datos/''])
                 ''p'' ''d'' ''tmp'' w_demo))
     = [NewBigQueryClient, NewStorageClient, DownloadAsText ''bucket'' (JStr ''datos/''),
        ReadJsonLines [], ClientClose] \<and>
   calls (snd (cargar_archivos_en_tabla_temporal_v_premium env_demo ''bucket''
                 (JList [JStr ''datos/'']) ''p'' ''d'' ''tmp'' w_demo))
     = [NewBigQueryClient, NewStorageClient]"
proof -
  have ev: "list_blobs env_demo ''bucket'' ''datos/''
     = Inr [''datos/'', ''datos/a.json'', ''datos/b.json'', ''datos/c.parquet''] \<and>
   endswith ''datos/'' ''/'' \<and>
   fst (obtener_archivos_nuevos env_demo ''bucket'' ''datos/'' ''p'' ''d'' w_demo)
     = [''datos/'', ''datos/a.json'', ''datos/c.parquet''] \<and>
   fst (obtener_archivos_nuevos_version_premium env_demo ''bucket'' ''datos/'' ''p'' ''d'' w_demo)
     = Inr [''datos/a.json'', ''datos/c.parquet''] \<and>
   calls (snd (cargar_archivos_en_tabla_temporal env_demo ''bucket'' (JList [JStr ''datos/''])
                 ''p'' ''d'' ''tmp'' w_demo))
     = [NewBigQueryClient, NewStorageClient, DownloadAsText ''bucket'' (JStr ''datos/''),
        ReadJsonLines [], ClientClose] \<and>
   calls (snd (cargar_archivos_en_tabla_temporal_v_premium env_demo ''bucket''
                 (JList [JStr ''datos/'']) ''p'' ''d'' ''tmp'' w_demo))
     = [NewBigQueryClient, NewStorageClient]"
    by (simp add: run_defs)
  show ?thesis
    by (intro conjI premium_intake_no_dirs premium_loop_dir ev[THEN conjunct1]
          ev[THEN conjunct2, THEN conjunct1]
          ev[THEN conjunct2, THEN conjunct2, THEN conjunct1]
          ev[THEN conjunct2, THEN conjunct2, THEN conjunct2, THEN conjunct1]
          ev[THEN conjunct2, THEN conjunct2, THEN conjunct2, THEN conjunct2, THEN conjunct1]
          ev[THEN conjunct2, THEN conjunct2, THEN conjunct2, THEN conjunct2, THEN conjunct2])
qed

text \<open>
  Claim C4, as the code has it.  An object whose payload the JSON decoder rejects adds no
  row to the staging table on either path: the only effects are the download, the decode
  attempt and printed lines.  On the premium path the decoder's exception is printed and
  raised again, so the caller of \<open>cargar_archivos_en_tabla_temporal_v_premium\<close> gets it.
  On the plain path the exception is caught inside the loop: one line is printed for the
  object and the loop goes on with the remaining objects; nothing is raised.
\<close>

theorem C4_decode_error_loads_nothing:
  "(blob_download_as_text env bucket_name archivo = Inr contenido \<and>
    pd_read_json_lines env contenido = Inl e \<longrightarrow>
      cargar_archivos_loop env bucket_name project_id dataset temp_table (archivo # rest) w
        = cargar_archivos_loop env bucket_name project_id dataset temp_table rest
            (w\<lparr>calls := calls w @ [DownloadAsText bucket_name archivo, ReadJsonLines contenido],
               stdout := stdout w @ [cargar_archivo_except archivo e]\<rparr>)) \<and>
   (endswith nombre ''.json'' \<and>
    blob_download_as_text env bucket_name (JStr nombre) = Inr contenido \<and>
    json_loads env contenido = Inl e \<longrightarrow>
      cargar_archivos_premium_loop env bucket_name table_id temp_table (JStr nombre # rest) w
        = (Inl e,
           w\<lparr>calls := calls w @ [DownloadAsText bucket_name (JStr nombre), JsonLoads contenido],
             stdout := stdout w @
               [[Lit ''Leyendo archivo '', Fmt (JStr nombre), Lit '' desde GCS...''],
                [Lit ''Error al procesar el archivo '', Fmt (JStr nombre), Lit '': '']
                @ str_exn e]\<rparr>)) \<and>
   (endswith nombre ''.json'' \<and>
    blob_download_as_text env bucket_name (JStr nombre) = Inr contenido \<and>
    json_loads env contenido = Inl e \<and>
    bigquery_Client env = None \<and> storage_Client env = None \<longrightarrow>
      fst (cargar_archivos_en_tabla_temporal_v_premium env bucket_name (JList (JStr nombre # rest))
             project_id dataset temp_table w) = Inl e \<and>
      tables (snd (cargar_archivos_en_tabla_temporal_v_premium env bucket_name
             (JList (JStr nombre # rest)) project_id dataset temp_table w)) = tables w) \<and>
   (bigquery_Client env = None \<and> storage_Client env = None \<longrightarrow>
      fst (cargar_archivos_en_tabla_temporal env bucket_name (JList xs) project_id dataset
             temp_table w) = Inr ())"
proof -
  have plain_returns: "fst (cargar_archivos_en_tabla_temporal env bucket_name (JList xs)
      project_id dataset temp_table w) = Inr ()"
    if "bigquery_Client env = None" and "storage_Client env = None"
    using that by (simp add: plain_top)
  have top: "fst (cargar_archivos_en_tabla_temporal_v_premium env bucket_name
             (JList (JStr nombre # rest)) project_id dataset temp_table w) = Inl e \<and>
      tables (snd (cargar_archivos_en_tabla_temporal_v_premium env bucket_name
             (JList (JStr nombre # rest)) project_id dataset temp_table w)) = tables w"
    if "endswith nombre ''.json''"
      and "blob_download_as_text env bucket_name (JStr nombre) = Inr contenido"
      and "json_loads env contenido = Inl e"
      and "bigquery_Client env = None" and "storage_Client env = None"
    using that
    by (simp add: premium_top premium_loop_decode_error del: cargar_archivos_premium_loop.simps)
  show ?thesis
    by (intro conjI impI; elim conjE)
      (rule plain_loop_decode_error premium_loop_decode_error top[THEN conjunct1]
         top[THEN conjunct2] plain_returns; assumption)+
qed

text \<open>The truncated file \<open>datos/malo.json\<close> on both paths.\<close>

theorem C4_decode_error_loads_nothing_witness:
  "blob_download_as_text env_demo ''bucket'' (JStr ''datos/malo.json'') = Inr malo_json \<and>
   pd_read_json_lines env_demo malo_json = Inl (Exn ValueError [Lit ''Expected object or value'']) \<and>
   endswith ''datos/malo.json'' ''.json'' \<and>
   json_loads env_demo malo_json = Inl (Exn JSONDecodeError [Lit ''Expecting value'']) \<and>
   bigquery_Client env_demo = None \<and> storage_Client env_demo = None \<and>
   cargar_archivos_loop env_demo ''bucket'' ''p'' ''d'' ''tmp'' [JStr ''datos/malo.json''] w_demo
     = w_demo\<lparr>calls := [DownloadAsText ''bucket'' (JStr ''datos/malo.json''),
                         ReadJsonLines malo_json],
               stdout := [[Lit ''Error al procesar el archivo '', Fmt (JStr ''datos/malo.json''),
                           Lit '': '', Lit ''Expected object or value'']]\<rparr> \<and>
   cargar_archivos_premium_loop env_demo ''bucket'' ''p.d.tmp'' ''tmp''
       [JStr ''datos/malo.json''] w_demo
     = (Inl (Exn JSONDecodeError [Lit ''Expecting value'']),
        w_demo\<lparr>calls := [DownloadAsText ''bucket'' (JStr ''datos/malo.json''),
                         JsonLoads malo_json],
               stdout := [[Lit ''Leyendo archivo '', Fmt (JStr ''datos/malo.json''),
                           Lit '' desde GCS...''],
                          [Lit ''Error al procesar el archivo '', Fmt (JStr ''datos/malo.json''),
                           Lit '': '', Lit ''Expecting value'']]\<rparr>) \<and>
   fst (cargar_archivos_en_tabla_temporal_v_premium env_demo ''bucket''
          (JList [JStr ''datos/malo.json'']) ''p'' ''d'' ''tmp'' w_demo)
     = Inl (Exn JSONDecodeError [Lit ''Expecting value'']) \<and>
   tables (snd (cargar_archivos_en_tabla_temporal_v_premium env_demo ''bucket''
          (JList [JStr ''datos/malo.json'']) ''p'' ''d'' ''tmp'' w_demo)) = tables w_demo"
proof -
  have h: "blob_download_as_text env_demo ''bucket'' (JStr ''datos/malo.json'') = Inr malo_json"
    "pd_read_json_lines env_demo malo_json = Inl (Exn ValueError [Lit ''Expected object or value''])"
    "endswith ''datos/malo.json'' ''.json''"
    "json_loads env_demo malo_json = Inl (Exn JSONDecodeError [Lit ''Expecting value''])"
    "bigquery_Client env_demo = None" "storage_Client env_demo = None"
    by (simp_all add: env_demo_def endswith_def malo_json_def a_json_def lista_json_def)
  have w0: "calls w_demo = []" "stdout w_demo = []"
    by (simp_all add: w_demo_def)
  note plain = C4_decode_error_loads_nothing[where env = env_demo and bucket_name = "''bucket''"
      and archivo = "JStr ''datos/malo.json''" and contenido = malo_json
      and e = "Exn ValueError [Lit ''Expected object or value'']"
      and project_id = "''p''" and dataset = "''d''" and temp_table = "''tmp''"
      and rest = "[]" and w = w_demo, THEN conjunct1]
  note prem = C4_decode_error_loads_nothing[where env = env_demo and bucket_name = "''bucket''"
      and nombre = "''datos/malo.json''" and contenido = malo_json
      and e = "Exn JSONDecodeError [Lit ''Expecting value'']"
      and project_id = "''p''" and dataset = "''d''" and temp_table = "''tmp''"
      and table_id = "''p.d.tmp''" and rest = "[]" and w = w_demo, THEN conjunct2]
  show ?thesis
    using h plain prem
    by (simp add: w0 cargar_archivo_except_def del: cargar_archivos_premium_loop.simps
          cargar_archivos_loop.simps(2))
qed

text \<open>The claim as stated fails on the plain path: the payload is rejected by the decoder, and
  the loader returns normally.\<close>

theorem C4_decode_error_loads_nothing_counterexample:
  "blob_download_as_text env_demo ''bucket'' (JStr ''datos/malo.json'') = Inr malo_json \<and>
   pd_read_json_lines env_demo malo_json = Inl (Exn ValueError [Lit ''Expected object or value'']) \<and>
   cargar_archivos_en_tabla_temporal env_demo ''bucket'' (JList [JStr ''datos/malo.json''])
       ''p'' ''d'' ''tmp'' w_demo
     = (Inr (),
        w_demo\<lparr>calls := [NewBigQueryClient, NewStorageClient,
                         DownloadAsText ''bucket'' (JStr ''datos/malo.json''),
                         ReadJsonLines malo_json, ClientClose],
               stdout := [[Lit ''Error al procesar el archivo '', Fmt (JStr ''datos/malo.json''),
                           Lit '': '', Lit ''Expected object or value'']]\<rparr>)"
  by (simp add: run_defs)

text \<open>
  Claim C5, as the code has it.  On the plain path an object that decodes to an empty
  frame raises \<open>ValueError\<close> inside the per-object \<open>try\<close>: nothing is loaded for it,
  the error line is printed and the loop goes on.  The premium path has no emptiness
  check, whatever the format: whenever the format dispatch hands over an empty batch, it
  has printed only the line that announces the read, and the empty batch is sent to
  \<open>insert_rows_json\<close> like any other; no warning is printed, and the object's outcome is
  that of the insert.  The dispatch hands over an empty batch for a \<open>.json\<close> object that
  is an empty array, and for a \<open>.parquet\<close> or \<open>.pkl\<close> object that is a table without
  rows.
\<close>

theorem C5_empty_payload_plain_error_premium_inserted:
  "(blob_download_as_text env bucket_name archivo = Inr contenido \<and>
    pd_read_json_lines env contenido = Inr df \<and> df_empty df \<longrightarrow>
      cargar_archivos_loop env bucket_name project_id dataset temp_table (archivo # rest) w
        = cargar_archivos_loop env bucket_name project_id dataset temp_table rest
            (w\<lparr>calls := calls w @ [DownloadAsText bucket_name archivo, ReadJsonLines contenido],
               stdout := stdout w @
                 [[Lit ''Error al procesar el archivo '', Fmt archivo, Lit '': '',
                   Lit ''El archivo '', Fmt archivo, Lit '' no contiene datos.'']]\<rparr>)) \<and>
   (endswith nombre ''.json'' \<and>
    blob_download_as_text env bucket_name (JStr nombre) = Inr contenido \<and>
    json_loads env contenido = Inr (JList []) \<longrightarrow>
      cargar_archivo_premium_try env bucket_name table_id temp_table (JStr nombre) w
        = (let w1 = w\<lparr>calls := calls w @ [DownloadAsText bucket_name (JStr nombre),
                                            JsonLoads contenido, InsertRowsJson table_id []],
                        stdout := stdout w @
                          [[Lit ''Leyendo archivo '', Fmt (JStr nombre), Lit '' desde GCS...''],
                           [Lit ''Cargando datos del archivo '', Fmt (JStr nombre),
                            Lit '' en la tabla temporal '', Fmt (JStr temp_table), Lit ''...'']]\<rparr>
           in case tables w table_id of
                None \<Rightarrow> (Inl (Exn OtherException [Lit ''Not found: Table '', Lit table_id]), w1)
              | Some old \<Rightarrow>
                  (case insert_errors env table_id [] of
                     Inl e \<Rightarrow> (Inl e, w1)
                   | Inr errors \<Rightarrow>
                       if errors = [] then
                         (Inr (), w1\<lparr>stdout := stdout w1 @
                            [[Lit ''Datos del archivo '', Fmt (JStr nombre),
                              Lit '' cargados exitosamente en la tabla temporal.'']]\<rparr>)
                       else
                         (Inl (Exn RuntimeError [Lit ''Error al insertar datos del archivo '',
                                 Fmt (JStr nombre), Lit '': '', Fmt (JList errors)]), w1)))) \<and>
   (leer_datos_premium env bucket_name archivo w = (Inr (Some []), w_leido) \<longrightarrow>
      stdout w_leido = stdout w @ [[Lit ''Leyendo archivo '', Fmt archivo, Lit '' desde GCS...'']] \<and>
      tables w_leido = tables w \<and>
      cargar_archivo_premium_try env bucket_name table_id temp_table archivo w
        = (let w2 = w_leido\<lparr>calls := calls w_leido @ [InsertRowsJson table_id []],
                        stdout := stdout w_leido @
                          [[Lit ''Cargando datos del archivo '', Fmt archivo,
                            Lit '' en la tabla temporal '', Fmt (JStr temp_table), Lit ''...'']]\<rparr>
           in case tables w_leido table_id of
                None \<Rightarrow> (Inl (Exn OtherException [Lit ''Not found: Table '', Lit table_id]), w2)
              | Some old \<Rightarrow>
                  (case insert_errors env table_id [] of
                     Inl e \<Rightarrow> (Inl e, w2)
                   | Inr errors \<Rightarrow>
                       if errors = [] then
                         (Inr (), w2\<lparr>stdout := stdout w2 @
                            [[Lit ''Datos del archivo '', Fmt archivo,
                              Lit '' cargados exitosamente en la tabla temporal.'']]\<rparr>)
                       else
                         (Inl (Exn RuntimeError [Lit ''Error al insertar datos del archivo '',
                                 Fmt archivo, Lit '': '', Fmt (JList errors)]), w2)))) \<and>
   (endswith nombre ''.json'' \<and>
    blob_download_as_text env bucket_name (JStr nombre) = Inr contenido \<and>
    json_loads env contenido = Inr (JList []) \<longrightarrow>
      leer_datos_premium env bucket_name (JStr nombre) w
        = (Inr (Some []),
           w\<lparr>calls := calls w @ [DownloadAsText bucket_name (JStr nombre), JsonLoads contenido],
             stdout := stdout w @ [[Lit ''Leyendo archivo '', Fmt (JStr nombre),
                                    Lit '' desde GCS...'']]\<rparr>)) \<and>
   (endswith nombre ''.parquet'' \<and>
    blob_download_as_bytes env bucket_name (JStr nombre) = Inr contenido \<and>
    pd_read_parquet env contenido = Inr df \<and> df_rows df = [] \<longrightarrow>
      leer_datos_premium env bucket_name (JStr nombre) w
        = (Inr (Some []),
           w\<lparr>calls := calls w @ [DownloadAsBytes bucket_name (JStr nombre), ReadParquet contenido],
             stdout := stdout w @ [[Lit ''Leyendo archivo '', Fmt (JStr nombre),
                                    Lit '' desde GCS...'']]\<rparr>)) \<and>
   (endswith nombre ''.pkl'' \<and>
    blob_download_as_bytes env bucket_name (JStr nombre) = Inr contenido \<and>
    pd_read_pickle env contenido = Inr df \<and> df_rows df = [] \<longrightarrow>
      leer_datos_premium env bucket_name (JStr nombre) w
        = (Inr (Some []),
           w\<lparr>calls := calls w @ [DownloadAsBytes bucket_name (JStr nombre), ReadPickle contenido],
             stdout := stdout w @ [[Lit ''Leyendo archivo '', Fmt (JStr nombre),
                                    Lit '' desde GCS...'']]\<rparr>))"
proof -
  have general: "stdout w_leido = stdout w @ [[Lit ''Leyendo archivo '', Fmt archivo,
        Lit '' desde GCS...'']] \<and> tables w_leido = tables w"
    if "leer_datos_premium env bucket_name archivo w = (Inr (Some []), w_leido)"
    using that by (rule leer_datos_premium_Some)
  show ?thesis
    by (intro conjI impI; (elim conjE)?)
      (rule plain_loop_empty premium_try_empty general[THEN conjunct1] general[THEN conjunct2]
         premium_try_empty_general leer_datos_premium_json_empty
         leer_datos_premium_parquet_empty leer_datos_premium_pkl_empty; assumption)+
qed

text \<open>The empty array \<open>datos/vacio.json\<close> on both paths, and a Parquet and a pickle
  table without rows on the premium path.\<close>

theorem C5_empty_payload_plain_error_premium_inserted_witness:
  "blob_download_as_text env_demo ''bucket'' (JStr ''datos/vacio.json'') = Inr ''[]'' \<and>
   pd_read_json_lines env_demo ''[]'' = Inr \<lparr>df_columns = [], df_rows = []\<rparr> \<and>
   df_empty \<lparr>df_columns = [], df_rows = []\<rparr> \<and>
   endswith ''datos/vacio.json'' ''.json'' \<and>
   json_loads env_demo ''[]'' = Inr (JList []) \<and>
   cargar_archivos_loop env_demo ''bucket'' ''p'' ''d'' ''tmp'' [JStr ''datos/vacio.json''] w_demo
     = w_demo\<lparr>calls := [DownloadAsText ''bucket'' (JStr ''datos/vacio.json''),
                         ReadJsonLines ''[]''],
               stdout := [[Lit ''Error al procesar el archivo '', Fmt (JStr ''datos/vacio.json''),
                           Lit '': '', Lit ''El archivo '', Fmt (JStr ''datos/vacio.json''),
                           Lit '' no contiene datos.'']]\<rparr> \<and>
   cargar_archivo_premium_try env_demo ''bucket'' ''p.d.tmp'' ''tmp''
       (JStr ''datos/vacio.json'') w_demo
     = (Inr (),
        w_demo\<lparr>calls := [DownloadAsText ''bucket'' (JStr ''datos/vacio.json''),
                         JsonLoads ''[]'', InsertRowsJson ''p.d.tmp'' []],
               stdout := [[Lit ''Leyendo archivo '', Fmt (JStr ''datos/vacio.json''),
                           Lit '' desde GCS...''],
                          [Lit ''Cargando datos del archivo '', Fmt (JStr ''datos/vacio.json''),
                           Lit '' en la tabla temporal '', Fmt (JStr ''tmp''), Lit ''...''],
                          [Lit ''Datos del archivo '', Fmt (JStr ''datos/vacio.json''),
                           Lit '' cargados exitosamente en la tabla temporal.'']]\<rparr>) \<and>
   endswith ''datos/c.parquet'' ''.parquet'' \<and> endswith ''datos/t.pkl'' ''.pkl'' \<and>
   blob_download_as_bytes env_tablas_vacias ''bucket'' (JStr ''datos/c.parquet'') = Inr ''PAR1'' \<and>
   blob_download_as_bytes env_tablas_vacias ''bucket'' (JStr ''datos/t.pkl'') = Inr ''PAR1'' \<and>
   pd_read_parquet env_tablas_vacias ''PAR1'' = Inr \<lparr>df_columns = [''x''], df_rows = []\<rparr> \<and>
   pd_read_pickle env_tablas_vacias ''PAR1'' = Inr \<lparr>df_columns = [''x''], df_rows = []\<rparr> \<and>
   cargar_archivo_premium_try env_tablas_vacias ''bucket'' ''p.d.tmp'' ''tmp''
       (JStr ''datos/c.parquet'') w_demo
     = (Inr (),
        w_demo\<lparr>calls := [DownloadAsBytes ''bucket'' (JStr ''datos/c.parquet''),
                         ReadParquet ''PAR1'', InsertRowsJson ''p.d.tmp'' []],
               stdout := [[Lit ''Leyendo archivo '', Fmt (JStr ''datos/c.parquet''),
                           Lit '' desde GCS...''],
                          [Lit ''Cargando datos del archivo '', Fmt (JStr ''datos/c.parquet''),
                           Lit '' en la tabla temporal '', Fmt (JStr ''tmp''), Lit ''...''],
                          [Lit ''Datos del archivo '', Fmt (JStr ''datos/c.parquet''),
                           Lit '' cargados exitosamente en la tabla temporal.'']]\<rparr>) \<and>
   cargar_archivo_premium_try env_tablas_vacias ''bucket'' ''p.d.tmp'' ''tmp''
       (JStr ''datos/t.pkl'') w_demo
     = (Inr (),
        w_demo\<lparr>calls := [DownloadAsBytes ''bucket'' (JStr ''datos/t.pkl''),
                         ReadPickle ''PAR1'', InsertRowsJson ''p.d.tmp'' []],
               stdout := [[Lit ''Leyendo archivo '', Fmt (JStr ''datos/t.pkl''),
                           Lit '' desde GCS...''],
                          [Lit ''Cargando datos del archivo '', Fmt (JStr ''datos/t.pkl''),
                           Lit '' en la tabla temporal '', Fmt (JStr ''tmp''), Lit ''...''],
                          [Lit ''Datos del archivo '', Fmt (JStr ''datos/t.pkl''),
                           Lit '' cargados exitosamente en la tabla temporal.'']]\<rparr>)"
proof -
  have hb: "endswith ''datos/c.parquet'' ''.parquet''" "endswith ''datos/t.pkl'' ''.pkl''"
    "blob_download_as_bytes env_tablas_vacias ''bucket'' (JStr ''datos/c.parquet'') = Inr ''PAR1''"
    "blob_download_as_bytes env_tablas_vacias ''bucket'' (JStr ''datos/t.pkl'') = Inr ''PAR1''"
    "pd_read_parquet env_tablas_vacias ''PAR1'' = Inr \<lparr>df_columns = [''x''], df_rows = []\<rparr>"
    "pd_read_pickle env_tablas_vacias ''PAR1'' = Inr \<lparr>df_columns = [''x''], df_rows = []\<rparr>"
    by (simp_all add: env_tablas_vacias_def env_demo_def endswith_def)
  have insb: "insert_errors env_tablas_vacias ''p.d.tmp'' [] = Inr []"
    by (simp add: env_tablas_vacias_def env_demo_def)
  have wb: "calls w_demo = []" "stdout w_demo = []" "tables w_demo ''p.d.tmp'' = Some []"
    by (simp_all add: w_demo_def)
  note pq = C5_empty_payload_plain_error_premium_inserted[where env = env_tablas_vacias and bucket_name = "''bucket''"
      and nombre = "''datos/c.parquet''" and contenido = "''PAR1''"
      and df = "\<lparr>df_columns = [''x''], df_rows = []\<rparr>" and w = w_demo]
  have leer_pq: "leer_datos_premium env_tablas_vacias ''bucket'' (JStr ''datos/c.parquet'') w_demo
      = (Inr (Some []),
         w_demo\<lparr>calls := [DownloadAsBytes ''bucket'' (JStr ''datos/c.parquet''),
                          ReadParquet ''PAR1''],
                stdout := [[Lit ''Leyendo archivo '', Fmt (JStr ''datos/c.parquet''),
                            Lit '' desde GCS...'']]\<rparr>)"
    using hb pq by (simp add: wb)
  note gen_pq = C5_empty_payload_plain_error_premium_inserted[where env = env_tablas_vacias and bucket_name = "''bucket''"
      and archivo = "JStr ''datos/c.parquet''" and w = w_demo
      and table_id = "''p.d.tmp''" and temp_table = "''tmp''"
      and w_leido = "w_demo\<lparr>calls := [DownloadAsBytes ''bucket'' (JStr ''datos/c.parquet''),
                          ReadParquet ''PAR1''],
                stdout := [[Lit ''Leyendo archivo '', Fmt (JStr ''datos/c.parquet''),
                            Lit '' desde GCS...'']]\<rparr>"]
  have try_pq: "cargar_archivo_premium_try env_tablas_vacias ''bucket'' ''p.d.tmp'' ''tmp''
       (JStr ''datos/c.parquet'') w_demo
     = (Inr (),
        w_demo\<lparr>calls := [DownloadAsBytes ''bucket'' (JStr ''datos/c.parquet''),
                         ReadParquet ''PAR1'', InsertRowsJson ''p.d.tmp'' []],
               stdout := [[Lit ''Leyendo archivo '', Fmt (JStr ''datos/c.parquet''),
                           Lit '' desde GCS...''],
                          [Lit ''Cargando datos del archivo '', Fmt (JStr ''datos/c.parquet''),
                           Lit '' en la tabla temporal '', Fmt (JStr ''tmp''), Lit ''...''],
                          [Lit ''Datos del archivo '', Fmt (JStr ''datos/c.parquet''),
                           Lit '' cargados exitosamente en la tabla temporal.'']]\<rparr>)"
    using leer_pq gen_pq by (simp add: wb insb Let_def)
  note pk = C5_empty_payload_plain_error_premium_inserted[where env = env_tablas_vacias and bucket_name = "''bucket''"
      and nombre = "''datos/t.pkl''" and contenido = "''PAR1''"
      and df = "\<lparr>df_columns = [''x''], df_rows = []\<rparr>" and w = w_demo]
  have leer_pk: "leer_datos_premium env_tablas_vacias ''bucket'' (JStr ''datos/t.pkl'') w_demo
      = (Inr (Some []),
         w_demo\<lparr>calls := [DownloadAsBytes ''bucket'' (JStr ''datos/t.pkl''),
                          ReadPickle ''PAR1''],
                stdout := [[Lit ''Leyendo archivo '', Fmt (JStr ''datos/t.pkl''),
                            Lit '' desde GCS...'']]\<rparr>)"
    using hb pk by (simp add: wb)
  note gen_pk = C5_empty_payload_plain_error_premium_inserted[where env = env_tablas_vacias and bucket_name = "''bucket''"
      and archivo = "JStr ''datos/t.pkl''" and w = w_demo
      and table_id = "''p.d.tmp''" and temp_table = "''tmp''"
      and w_leido = "w_demo\<lparr>calls := [DownloadAsBytes ''bucket'' (JStr ''datos/t.pkl''),
                          ReadPickle ''PAR1''],
                stdout := [[Lit ''Leyendo archivo '', Fmt (JStr ''datos/t.pkl''),
                            Lit '' desde GCS...'']]\<rparr>"]
  have try_pk: "cargar_archivo_premium_try env_tablas_vacias ''bucket'' ''p.d.tmp'' ''tmp''
       (JStr ''datos/t.pkl'') w_demo
     = (Inr (),
        w_demo\<lparr>calls := [DownloadAsBytes ''bucket'' (JStr ''datos/t.pkl''),
                         ReadPickle ''PAR1'', InsertRowsJson ''p.d.tmp'' []],
               stdout := [[Lit ''Leyendo archivo '', Fmt (JStr ''datos/t.pkl''),
                           Lit '' desde GCS...''],
                          [Lit ''Cargando datos del archivo '', Fmt (JStr ''datos/t.pkl''),
                           Lit '' en la tabla temporal '', Fmt (JStr ''tmp''), Lit ''...''],
                          [Lit ''Datos del archivo '', Fmt (JStr ''datos/t.pkl''),
                           Lit '' cargados exitosamente en la tabla temporal.'']]\<rparr>)"
    using leer_pk gen_pk by (simp add: wb insb Let_def)
  have h: "blob_download_as_text env_demo ''bucket'' (JStr ''datos/vacio.json'') = Inr ''[]''"
    "pd_read_json_lines env_demo ''[]'' = Inr \<lparr>df_columns = [], df_rows = []\<rparr>"
    "df_empty \<lparr>df_columns = [], df_rows = []\<rparr>"
    "endswith ''datos/vacio.json'' ''.json''"
    "json_loads env_demo ''[]'' = Inr (JList [])"
    by (simp_all add: env_demo_def endswith_def df_empty_def a_json_def lista_json_def)
  have w0: "calls w_demo = []" "stdout w_demo = []" "tables w_demo ''p.d.tmp'' = Some []"
    by (simp_all add: w_demo_def)
  have ins: "insert_errors env_demo ''p.d.tmp'' [] = Inr []"
    by (simp add: env_demo_def)
  note plain = C5_empty_payload_plain_error_premium_inserted[where env = env_demo and bucket_name = "''bucket''"
      and archivo = "JStr ''datos/vacio.json''" and contenido = "''[]''"
      and df = "\<lparr>df_columns = [], df_rows = []\<rparr>"
      and project_id = "''p''" and dataset = "''d''" and temp_table = "''tmp''"
      and rest = "[]" and w = w_demo, THEN conjunct1]
  note prem = C5_empty_payload_plain_error_premium_inserted[where env = env_demo and bucket_name = "''bucket''"
      and nombre = "''datos/vacio.json''" and contenido = "''[]''"
      and temp_table = "''tmp''" and table_id = "''p.d.tmp''" and w = w_demo, THEN conjunct2, THEN conjunct1]
  show ?thesis
    using h hb plain prem try_pq try_pk
    by (simp add: w0 ins Let_def del: cargar_archivos_loop.simps(2))
qed

text \<open>The claim as stated fails on the premium path: the empty array is sent to the insert
  and reported as loaded; no warning is printed.\<close>

theorem C5_empty_payload_plain_error_premium_inserted_counterexample:
  "blob_download_as_text env_demo ''bucket'' (JStr ''datos/vacio.json'') = Inr ''[]'' \<and>
   json_loads env_demo ''[]'' = Inr (JList []) \<and>
   cargar_archivos_en_tabla_temporal_v_premium env_demo ''bucket''
       (JList [JStr ''datos/vacio.json'']) ''p'' ''d'' ''tmp'' w_demo
     = (Inr (),
        w_demo\<lparr>calls := [NewBigQueryClient, NewStorageClient,
                         DownloadAsText ''bucket'' (JStr ''datos/vacio.json''),
                         JsonLoads ''[]'', InsertRowsJson ''p.d.tmp'' []],
               stdout := [[Lit (''Tipo de '' @ [CHR 0x27] @ ''archivos'' @ [CHR 0x27]
                                @ '' recibido: ''),
                           FmtType (JList [JStr ''datos/vacio.json''])],
                          [Lit (''Contenido de '' @ [CHR 0x27] @ ''archivos'' @ [CHR 0x27]
                                @ '' recibido: ''),
                           Fmt (JList [JStr ''datos/vacio.json''])],
                          [Lit ''Leyendo archivo '', Fmt (JStr ''datos/vacio.json''),
                           Lit '' desde GCS...''],
                          [Lit ''Cargando datos del archivo '', Fmt (JStr ''datos/vacio.json''),
                           Lit '' en la tabla temporal '', Fmt (JStr ''tmp''), Lit ''...''],
                          [Lit ''Datos del archivo '', Fmt (JStr ''datos/vacio.json''),
                           Lit '' cargados exitosamente en la tabla temporal.'']]\<rparr>)"
proof -
  have c: "blob_download_as_text env_demo ''bucket'' (JStr ''datos/vacio.json'') = Inr ''[]''"
    "json_loads env_demo ''[]'' = Inr (JList [])"
    by (simp_all add: env_demo_def lista_json_def)
  have t: "tables w_demo ''p.d.tmp'' = Some []"
    by (simp add: w_demo_def)
  have upd: "(tables w_demo)(''p.d.tmp'' \<mapsto> []) = tables w_demo"
    using t by (simp add: fun_upd_idem)
  have run: "cargar_archivos_en_tabla_temporal_v_premium env_demo ''bucket''
       (JList [JStr ''datos/vacio.json'']) ''p'' ''d'' ''tmp'' w_demo
     = (Inr (),
        w_demo\<lparr>calls := [NewBigQueryClient, NewStorageClient,
                         DownloadAsText ''bucket'' (JStr ''datos/vacio.json''),
                         JsonLoads ''[]'', InsertRowsJson ''p.d.tmp'' []],
               stdout := [[Lit (''Tipo de '' @ [CHR 0x27] @ ''archivos'' @ [CHR 0x27]
                                @ '' recibido: ''),
                           FmtType (JList [JStr ''datos/vacio.json''])],
                          [Lit (''Contenido de '' @ [CHR 0x27] @ ''archivos'' @ [CHR 0x27]
                                @ '' recibido: ''),
                           Fmt (JList [JStr ''datos/vacio.json''])],
                          [Lit ''Leyendo archivo '', Fmt (JStr ''datos/vacio.json''),
                           Lit '' desde GCS...''],
                          [Lit ''Cargando datos del archivo '', Fmt (JStr ''datos/vacio.json''),
                           Lit '' en la tabla temporal '', Fmt (JStr ''tmp''), Lit ''...''],
                          [Lit ''Datos del archivo '', Fmt (JStr ''datos/vacio.json''),
                           Lit '' cargados exitosamente en la tabla temporal.'']],
               tables := (tables w_demo)(''p.d.tmp'' \<mapsto> [])\<rparr>)"
    by (simp add: run_defs)
  show ?thesis
    using c run by (simp add: upd)
qed

text \<open>
  Claim C6, as the code has it.  On the plain path every object of the list is downloaded,
  in order, whatever happened to the objects before it; one line is printed for each
  object whose processing raised and none for the others; the loader itself returns
  normally.  On the premium path the first object whose processing raises ends the loop:
  its error is printed and raised again, and the objects after it are not touched.
\<close>

theorem C6_plain_isolates_failures_premium_stops:
  "filter is_download (calls (cargar_archivos_loop env bucket_name project_id dataset temp_table
      xs w))
     = filter is_download (calls w) @ map (DownloadAsText bucket_name) xs \<and>
   stdout (cargar_archivos_loop env bucket_name project_id dataset temp_table xs w)
     = stdout w @ concat (map (\<lambda>a.
         case fst (cargar_archivo_try env bucket_name project_id dataset temp_table a w) of
           Inl e \<Rightarrow> [cargar_archivo_except a e]
         | Inr u \<Rightarrow> []) xs) \<and>
   (bigquery_Client env = None \<and> storage_Client env = None \<longrightarrow>
      fst (cargar_archivos_en_tabla_temporal env bucket_name (JList xs) project_id dataset
             temp_table w) = Inr ()) \<and>
   (fst (cargar_archivo_premium_try env bucket_name table_id temp_table archivo w) = Inl e \<longrightarrow>
      cargar_archivos_premium_loop env bucket_name table_id temp_table (archivo # rest) w
        = (Inl e,
           (snd (cargar_archivo_premium_try env bucket_name table_id temp_table archivo w))
           \<lparr>stdout := stdout (snd (cargar_archivo_premium_try env bucket_name table_id
                                    temp_table archivo w))
                @ [[Lit ''Error al procesar el archivo '', Fmt archivo, Lit '': '']
                   @ str_exn e]\<rparr>))"
proof -
  have top: "fst (cargar_archivos_en_tabla_temporal env bucket_name (JList xs) project_id dataset
             temp_table w) = Inr ()"
    if "bigquery_Client env = None" and "storage_Client env = None"
    using that by (simp add: plain_top)
  show ?thesis
    by (intro conjI impI; (elim conjE)?)
      (rule plain_loop_downloads plain_loop_stdout top premium_loop_stops; assumption?)+
qed

text \<open>A truncated file followed by a good one, on both paths.\<close>

theorem C6_plain_isolates_failures_premium_stops_witness:
  "filter is_download (calls (cargar_archivos_loop env_demo ''bucket'' ''p'' ''d'' ''tmp''
      [JStr ''datos/malo.json'', JStr ''datos/a.json''] w_demo))
     = [DownloadAsText ''bucket'' (JStr ''datos/malo.json''),
        DownloadAsText ''bucket'' (JStr ''datos/a.json'')] \<and>
   stdout (cargar_archivos_loop env_demo ''bucket'' ''p'' ''d'' ''tmp''
      [JStr ''datos/malo.json'', JStr ''datos/a.json''] w_demo)
     = [[Lit ''Error al procesar el archivo '', Fmt (JStr ''datos/malo.json''),
         Lit '': '', Lit ''Expected object or value'']] \<and>
   tables (cargar_archivos_loop env_demo ''bucket'' ''p'' ''d'' ''tmp''
      [JStr ''datos/malo.json'', JStr ''datos/a.json''] w_demo) ''p.d.tmp''
     = Some [JDict [(''x'', JInt 1)], JDict [(''x'', JInt 2)]] \<and>
   bigquery_Client env_demo = None \<and> storage_Client env_demo = None \<and>
   fst (cargar_archivos_en_tabla_temporal env_demo ''bucket''
          (JList [JStr ''datos/malo.json'', JStr ''datos/a.json'']) ''p'' ''d'' ''tmp'' w_demo)
     = Inr () \<and>
   fst (cargar_archivo_premium_try env_demo ''bucket'' ''p.d.tmp'' ''tmp''
          (JStr ''datos/malo.json'') w_demo)
     = Inl (Exn JSONDecodeError [Lit ''Expecting value'']) \<and>
   fst (cargar_archivos_premium_loop env_demo ''bucket'' ''p.d.tmp'' ''tmp''
          [JStr ''datos/malo.json'', JStr ''datos/lista.json''] w_demo)
     = Inl (Exn JSONDecodeError [Lit ''Expecting value'']) \<and>
   calls (snd (cargar_archivos_premium_loop env_demo ''bucket'' ''p.d.tmp'' ''tmp''
          [JStr ''datos/malo.json'', JStr ''datos/lista.json''] w_demo))
     = [DownloadAsText ''bucket'' (JStr ''datos/malo.json''), JsonLoads malo_json]"
proof -
  have h: "bigquery_Client env_demo = None" "storage_Client env_demo = None"
    by (simp_all add: env_demo_def)
  have w0: "calls w_demo = []" "stdout w_demo = []"
    by (simp_all add: w_demo_def)
  have t1: "fst (cargar_archivo_try env_demo ''bucket'' ''p'' ''d'' ''tmp''
                   (JStr ''datos/malo.json'') w_demo)
              = Inl (Exn ValueError [Lit ''Expected object or value''])"
    and t2: "fst (cargar_archivo_try env_demo ''bucket'' ''p'' ''d'' ''tmp''
                   (JStr ''datos/a.json'') w_demo) = Inr ()"
    by (simp_all add: run_defs)
  have loaded: "tables (cargar_archivos_loop env_demo ''bucket'' ''p'' ''d'' ''tmp''
      [JStr ''datos/malo.json'', JStr ''datos/a.json''] w_demo) ''p.d.tmp''
     = Some [JDict [(''x'', JInt 1)], JDict [(''x'', JInt 2)]]"
    by (simp add: run_defs)
  have p1: "cargar_archivo_premium_try env_demo ''bucket'' ''p.d.tmp'' ''tmp''
          (JStr ''datos/malo.json'') w_demo
     = (Inl (Exn JSONDecodeError [Lit ''Expecting value'']),
        w_demo\<lparr>calls := [DownloadAsText ''bucket'' (JStr ''datos/malo.json''),
                         JsonLoads malo_json],
               stdout := [[Lit ''Leyendo archivo '', Fmt (JStr ''datos/malo.json''),
                           Lit '' desde GCS...'']]\<rparr>)"
    by (simp add: run_defs)
  note t = C6_plain_isolates_failures_premium_stops[where env = env_demo and bucket_name = "''bucket''" and project_id = "''p''"
      and dataset = "''d''" and temp_table = "''tmp''" and table_id = "''p.d.tmp''"
      and xs = "[JStr ''datos/malo.json'', JStr ''datos/a.json'']"
      and archivo = "JStr ''datos/malo.json''" and rest = "[JStr ''datos/lista.json'']"
      and e = "Exn JSONDecodeError [Lit ''Expecting value'']" and w = w_demo]
  show ?thesis
    using h t loaded
    by (simp add: w0 t1 t2 p1 cargar_archivo_except_def
          del: cargar_archivos_premium_loop.simps cargar_archivos_loop.simps(2))
qed

text \<open>The claim as stated fails on the premium path: after the truncated file, the good file
  is never downloaded, though alone it loads.\<close>

theorem C6_plain_isolates_failures_premium_stops_counterexample:
  "cargar_archivos_en_tabla_temporal_v_premium env_demo ''bucket''
       (JList [JStr ''datos/malo.json'', JStr ''datos/lista.json'']) ''p'' ''d'' ''tmp'' w_demo
     = (Inl (Exn JSONDecodeError [Lit ''Expecting value'']),
        w_demo\<lparr>calls := [NewBigQueryClient, NewStorageClient,
                         DownloadAsText ''bucket'' (JStr ''datos/malo.json''),
                         JsonLoads malo_json],
               stdout := [[Lit (''Tipo de '' @ [CHR 0x27] @ ''archivos'' @ [CHR 0x27]
                                @ '' recibido: ''),
                           FmtType (JList [JStr ''datos/malo.json'', JStr ''datos/lista.json''])],
                          [Lit (''Contenido de '' @ [CHR 0x27] @ ''archivos'' @ [CHR 0x27]
                                @ '' recibido: ''),
                           Fmt (JList [JStr ''datos/malo.json'', JStr ''datos/lista.json''])],
                          [Lit ''Leyendo archivo '', Fmt (JStr ''datos/malo.json''),
                           Lit '' desde GCS...''],
                          [Lit ''Error al procesar el archivo '', Fmt (JStr ''datos/malo.json''),
                           Lit '': '', Lit ''Expecting value'']]\<rparr>) \<and>
   fst (cargar_archivos_en_tabla_temporal_v_premium env_demo ''bucket''
          (JList [JStr ''datos/lista.json'']) ''p'' ''d'' ''tmp'' w_demo) = Inr ()"
  by (simp add: run_defs)

text \<open>
  Claim C7, as the code has it.  \<open>registrar_archivos_en_bq\<close> never raises.  When the
  insert into \<open>archivos_procesados\<close> raises, or returns errors, the function prints the
  error and returns normally; the tables are what they were before the call.
\<close>

theorem C7_ledger_failure_printed_not_raised:
  "fst (registrar_archivos_en_bq env project_id dataset archivos_nuevos w) = Inr () \<and>
   (archivos_nuevos \<noteq> [] \<and> bigquery_Client env = None \<and>
    tables w (archivos_procesados_table_id project_id dataset) = Some old \<and>
    insert_errors env (archivos_procesados_table_id project_id dataset)
      (map (\<lambda>(i, archivo). JDict [(''nombre_archivo'', JStr archivo),
              (''fecha_carga'', JStr (datetime_now_isoformat env i))])
         (enumerate 0 archivos_nuevos)) = Inl e \<longrightarrow>
      registrar_archivos_en_bq env project_id dataset archivos_nuevos w
        = (Inr (),
           w\<lparr>calls := calls w @ [NewBigQueryClient,
                 InsertRowsJson (archivos_procesados_table_id project_id dataset)
                   (map (\<lambda>(i, archivo). JDict [(''nombre_archivo'', JStr archivo),
                           (''fecha_carga'', JStr (datetime_now_isoformat env i))])
                      (enumerate 0 archivos_nuevos))],
             stdout := stdout w @
               [[Lit ''Registrando archivos en BigQuery: '', Fmt (JList (map JStr archivos_nuevos))],
                Lit ''Error en registrar_archivos_en_bq: '' # str_exn e]\<rparr>)) \<and>
   (archivos_nuevos \<noteq> [] \<and> bigquery_Client env = None \<and>
    tables w (archivos_procesados_table_id project_id dataset) = Some old \<and>
    insert_errors env (archivos_procesados_table_id project_id dataset)
      (map (\<lambda>(i, archivo). JDict [(''nombre_archivo'', JStr archivo),
              (''fecha_carga'', JStr (datetime_now_isoformat env i))])
         (enumerate 0 archivos_nuevos)) = Inr errors \<and> errors \<noteq> [] \<longrightarrow>
      registrar_archivos_en_bq env project_id dataset archivos_nuevos w
        = (Inr (),
           w\<lparr>calls := calls w @ [NewBigQueryClient,
                 InsertRowsJson (archivos_procesados_table_id project_id dataset)
                   (map (\<lambda>(i, archivo). JDict [(''nombre_archivo'', JStr archivo),
                           (''fecha_carga'', JStr (datetime_now_isoformat env i))])
                      (enumerate 0 archivos_nuevos))],
             stdout := stdout w @
               [[Lit ''Registrando archivos en BigQuery: '', Fmt (JList (map JStr archivos_nuevos))],
                [Lit ''Error al insertar los archivos procesados: '', Fmt (JList errors)]]\<rparr>)) \<and>
   (fst (registrar_archivos_en_bq_try env project_id dataset archivos_nuevos w) = Inl e \<longrightarrow>
      tables (snd (registrar_archivos_en_bq env project_id dataset archivos_nuevos w)) = tables w \<and>
      stdout (snd (registrar_archivos_en_bq env project_id dataset archivos_nuevos w))
        = stdout (snd (registrar_archivos_en_bq_try env project_id dataset archivos_nuevos w))
          @ [Lit ''Error en registrar_archivos_en_bq: '' # str_exn e])"
  by (intro conjI impI; (elim conjE)?)
    (rule registrar_never_raises registrar_insert_raises registrar_insert_errors
       registrar_raises_general[THEN conjunct1] registrar_raises_general[THEN conjunct2];
     assumption)+

text \<open>The warehouse down, and the warehouse rejecting a row.\<close>

theorem C7_ledger_failure_printed_not_raised_witness:
  "fst (registrar_archivos_en_bq env_demo ''p'' ''d'' [''datos/a.json''] w_demo) = Inr () \<and>
   bigquery_Client env_bigquery_caido = None \<and> bigquery_Client env_fila_rechazada = None \<and>
   tables w_demo ''p.d.archivos_procesados''
     = Some [JDict [(''nombre_archivo'', JStr ''datos/b.json''),
                    (''fecha_carga'', JStr ''2024-11-04T10:00:00'')]] \<and>
   insert_errors env_bigquery_caido ''p.d.archivos_procesados''
     [JDict [(''nombre_archivo'', JStr ''datos/a.json''),
             (''fecha_carga'', JStr ''2024-11-05T10:00:00'')]] = Inl service_unavailable \<and>
   registrar_archivos_en_bq env_bigquery_caido ''p'' ''d'' [''datos/a.json''] w_demo
     = (Inr (),
        w_demo\<lparr>calls := [NewBigQueryClient,
                         InsertRowsJson ''p.d.archivos_procesados''
                           [JDict [(''nombre_archivo'', JStr ''datos/a.json''),
                                   (''fecha_carga'', JStr ''2024-11-05T10:00:00'')]]],
               stdout := [[Lit ''Registrando archivos en BigQuery: '',
                           Fmt (JList [JStr ''datos/a.json''])],
                          [Lit ''Error en registrar_archivos_en_bq: '',
                           Lit ''503 Service Unavailable'']]\<rparr>) \<and>
   insert_errors env_fila_rechazada ''p.d.archivos_procesados''
     [JDict [(''nombre_archivo'', JStr ''datos/a.json''),
             (''fecha_carga'', JStr ''2024-11-05T10:00:00'')]]
     = Inr [JDict [(''index'', JInt 0), (''errors'', JList [JStr ''invalid''])]] \<and>
   registrar_archivos_en_bq env_fila_rechazada ''p'' ''d'' [''datos/a.json''] w_demo
     = (Inr (),
        w_demo\<lparr>calls := [NewBigQueryClient,
                         InsertRowsJson ''p.d.archivos_procesados''
                           [JDict [(''nombre_archivo'', JStr ''datos/a.json''),
                                   (''fecha_carga'', JStr ''2024-11-05T10:00:00'')]]],
               stdout := [[Lit ''Registrando archivos en BigQuery: '',
                           Fmt (JList [JStr ''datos/a.json''])],
                          [Lit ''Error al insertar los archivos procesados: '',
                           Fmt (JList [JDict [(''index'', JInt 0),
                                              (''errors'', JList [JStr ''invalid''])]])]]\<rparr>)"
proof -
  have h: "bigquery_Client env_bigquery_caido = None" "bigquery_Client env_fila_rechazada = None"
    "tables w_demo ''p.d.archivos_procesados''
       = Some [JDict [(''nombre_archivo'', JStr ''datos/b.json''),
                      (''fecha_carga'', JStr ''2024-11-04T10:00:00'')]]"
    "insert_errors env_bigquery_caido ''p.d.archivos_procesados''
       [JDict [(''nombre_archivo'', JStr ''datos/a.json''),
               (''fecha_carga'', JStr ''2024-11-05T10:00:00'')]] = Inl service_unavailable"
    "insert_errors env_fila_rechazada ''p.d.archivos_procesados''
       [JDict [(''nombre_archivo'', JStr ''datos/a.json''),
               (''fecha_carga'', JStr ''2024-11-05T10:00:00'')]]
       = Inr [JDict [(''index'', JInt 0), (''errors'', JList [JStr ''invalid''])]]"
    by (simp_all add: env_bigquery_caido_def env_fila_rechazada_def env_demo_def w_demo_def)
  have w0: "calls w_demo = []" "stdout w_demo = []"
    by (simp_all add: w_demo_def)
  have c: "datetime_now_isoformat env_bigquery_caido 0 = ''2024-11-05T10:00:00''"
    "datetime_now_isoformat env_fila_rechazada 0 = ''2024-11-05T10:00:00''"
    by (simp_all add: env_bigquery_caido_def env_fila_rechazada_def env_demo_def)
  have tid: "archivos_procesados_table_id ''p'' ''d'' = ''p.d.archivos_procesados''"
    by (simp add: archivos_procesados_table_id_def)
  note never = C7_ledger_failure_printed_not_raised[where env = env_demo and project_id = "''p''" and dataset = "''d''"
      and archivos_nuevos = "[''datos/a.json'']" and w = w_demo, THEN conjunct1]
  note raises = C7_ledger_failure_printed_not_raised[where env = env_bigquery_caido and project_id = "''p''" and dataset = "''d''"
      and archivos_nuevos = "[''datos/a.json'']" and w = w_demo and e = service_unavailable
      and old = "[JDict [(''nombre_archivo'', JStr ''datos/b.json''),
                         (''fecha_carga'', JStr ''2024-11-04T10:00:00'')]]",
      THEN conjunct2, THEN conjunct1]
  note errs = C7_ledger_failure_printed_not_raised[where env = env_fila_rechazada and project_id = "''p''" and dataset = "''d''"
      and archivos_nuevos = "[''datos/a.json'']" and w = w_demo
      and errors = "[JDict [(''index'', JInt 0), (''errors'', JList [JStr ''invalid''])]]"
      and old = "[JDict [(''nombre_archivo'', JStr ''datos/b.json''),
                         (''fecha_carga'', JStr ''2024-11-04T10:00:00'')]]",
      THEN conjunct2, THEN conjunct2]
  show ?thesis
    using h never raises errs
    by (simp add: w0 c tid service_unavailable_def)
qed

text \<open>The claim as stated fails: the insert raises, and the function returns normally.\<close>

theorem C7_ledger_failure_printed_not_raised_counterexample:
  "insert_errors env_bigquery_caido ''p.d.archivos_procesados''
     [JDict [(''nombre_archivo'', JStr ''datos/a.json''),
             (''fecha_carga'', JStr ''2024-11-05T10:00:00'')]] = Inl service_unavailable \<and>
   registrar_archivos_en_bq env_bigquery_caido ''p'' ''d'' [''datos/a.json''] w_demo
     = (Inr (),
        w_demo\<lparr>calls := [NewBigQueryClient,
                         InsertRowsJson ''p.d.archivos_procesados''
                           [JDict [(''nombre_archivo'', JStr ''datos/a.json''),
                                   (''fecha_carga'', JStr ''2024-11-05T10:00:00'')]]],
               stdout := [[Lit ''Registrando archivos en BigQuery: '',
                           Fmt (JList [JStr ''datos/a.json''])],
                          [Lit ''Error en registrar_archivos_en_bq: '',
                           Lit ''503 Service Unavailable'']]\<rparr>)"
  by (simp add: run_defs enumerate_eq_zip)

text \<open>
  Claim C8, as the code has it.  On the premium path an object whose name ends in none of
  \<open>.json\<close>, \<open>.parquet\<close>, \<open>.pkl\<close> is passed over with a warning: nothing is
  downloaded, decoded or loaded for it, and the loop goes on.  The plain path has no format
  dispatch: whatever the name, the object is downloaded and handed to the JSON-lines
  decoder; the loader still returns normally.
\<close>

theorem C8_unsupported_suffix_skipped_by_premium_only:
  "(\<not> endswith nombre ''.json'' \<and> \<not> endswith nombre ''.parquet'' \<and> \<not> endswith nombre ''.pkl''
      \<longrightarrow>
      cargar_archivos_premium_loop env bucket_name table_id temp_table (JStr nombre # rest) w
        = cargar_archivos_premium_loop env bucket_name table_id temp_table rest
            (w\<lparr>stdout := stdout w @
               (if endswith nombre ''/'' then
                  [[Lit ''Advertencia: '', Fmt (JStr nombre),
                    Lit '' parece ser un directorio y no un archivo. Saltando...'']]
                else
                  [[Lit ''Leyendo archivo '', Fmt (JStr nombre), Lit '' desde GCS...''],
                   [Lit ''Advertencia: Formato de archivo no soportado ('', Fmt (JStr nombre),
                    Lit ''). Saltando...'']])\<rparr>)) \<and>
   (blob_download_as_text env bucket_name archivo = Inr contenido \<longrightarrow>
      prefix (calls w @ [DownloadAsText bucket_name archivo, ReadJsonLines contenido])
        (calls (snd (cargar_archivo_try env bucket_name project_id dataset temp_table
                       archivo w)))) \<and>
   (bigquery_Client env = None \<and> storage_Client env = None \<longrightarrow>
      fst (cargar_archivos_en_tabla_temporal env bucket_name (JList xs) project_id dataset
             temp_table w) = Inr ())"
proof -
  have top: "fst (cargar_archivos_en_tabla_temporal env bucket_name (JList xs) project_id dataset
             temp_table w) = Inr ()"
    if "bigquery_Client env = None" and "storage_Client env = None"
    using that by (simp add: plain_top)
  show ?thesis
    by (intro conjI impI; (elim conjE)?)
      (rule premium_loop_unsupported plain_try_downloads_and_decodes top; assumption)+
qed

text \<open>The text file \<open>datos/notas.txt\<close> on both paths.\<close>

theorem C8_unsupported_suffix_skipped_by_premium_only_witness:
  "\<not> endswith ''datos/notas.txt'' ''.json'' \<and> \<not> endswith ''datos/notas.txt'' ''.parquet'' \<and>
   \<not> endswith ''datos/notas.txt'' ''.pkl'' \<and>
   cargar_archivos_premium_loop env_demo ''bucket'' ''p.d.tmp'' ''tmp''
       [JStr ''datos/notas.txt''] w_demo
     = (Inr (),
        w_demo\<lparr>stdout := [[Lit ''Leyendo archivo '', Fmt (JStr ''datos/notas.txt''),
                           Lit '' desde GCS...''],
                          [Lit ''Advertencia: Formato de archivo no soportado ('',
                           Fmt (JStr ''datos/notas.txt''), Lit ''). Saltando...'']]\<rparr>) \<and>
   blob_download_as_text env_demo ''bucket'' (JStr ''datos/notas.txt'') = Inr ''hola'' \<and>
   prefix [DownloadAsText ''bucket'' (JStr ''datos/notas.txt''), ReadJsonLines ''hola'']
     (calls (snd (cargar_archivo_try env_demo ''bucket'' ''p'' ''d'' ''tmp''
                    (JStr ''datos/notas.txt'') w_demo))) \<and>
   bigquery_Client env_demo = None \<and> storage_Client env_demo = None \<and>
   fst (cargar_archivos_en_tabla_temporal env_demo ''bucket'' (JList [JStr ''datos/notas.txt''])
          ''p'' ''d'' ''tmp'' w_demo) = Inr ()"
proof -
  have h: "\<not> endswith ''datos/notas.txt'' ''.json''" "\<not> endswith ''datos/notas.txt'' ''.parquet''"
    "\<not> endswith ''datos/notas.txt'' ''.pkl''" "\<not> endswith ''datos/notas.txt'' ''/''"
    "blob_download_as_text env_demo ''bucket'' (JStr ''datos/notas.txt'') = Inr ''hola''"
    "bigquery_Client env_demo = None" "storage_Client env_demo = None"
    by (simp_all add: env_demo_def endswith_def)
  have w0: "calls w_demo = []" "stdout w_demo = []"
    by (simp_all add: w_demo_def)
  note t = C8_unsupported_suffix_skipped_by_premium_only[where env = env_demo and bucket_name = "''bucket''" and project_id = "''p''"
      and dataset = "''d''" and temp_table = "''tmp''" and table_id = "''p.d.tmp''"
      and nombre = "''datos/notas.txt''" and rest = "[]"
      and archivo = "JStr ''datos/notas.txt''" and contenido = "''hola''"
      and xs = "[JStr ''datos/notas.txt'']" and w = w_demo]
  show ?thesis
    using h t
    by (simp add: w0 del: cargar_archivos_premium_loop.simps(2))
qed

text \<open>The claim as stated fails on the plain path: the text file is downloaded and decoded.\<close>

theorem C8_unsupported_suffix_skipped_by_premium_only_counterexample:
  "\<not> endswith ''datos/notas.txt'' ''.json'' \<and> \<not> endswith ''datos/notas.txt'' ''.parquet'' \<and>
   \<not> endswith ''datos/notas.txt'' ''.pkl'' \<and>
   cargar_archivos_en_tabla_temporal env_demo ''bucket'' (JList [JStr ''datos/notas.txt''])
       ''p'' ''d'' ''tmp'' w_demo
     = (Inr (),
        w_demo\<lparr>calls := [NewBigQueryClient, NewStorageClient,
                         DownloadAsText ''bucket'' (JStr ''datos/notas.txt''),
                         ReadJsonLines ''hola'', ClientClose],
               stdout := [[Lit ''Error al procesar el archivo '', Fmt (JStr ''datos/notas.txt''),
                           Lit '': '', Lit ''Expected object or value'']]\<rparr>)"
  by (simp add: run_defs)

end
